theory Spec2Isabelle
  imports Complex_Main
begin

section \<open>Conventions of the embedding\<close>

text \<open>
  The program is numerical Python (numpy, scipy).  A one-dimensional float64 array is a
  \<^typ>\<open>real list\<close>, a boolean mask a \<^typ>\<open>bool list\<close>; float64 arithmetic is exact real
  arithmetic, so rounding, overflow, infinities and NaN are outside the model (in
  particular \<open>np.sqrt\<close> and \<open>np.log\<close> of a negative number are NaN in the program and
  some real number here).  Every exception the program can raise is a value of type
  \<open>error\<close>, and a function that can raise returns \<open>error + 'a\<close>.

  Every division written in the source is a checked division: a zero divisor is the error
  \<open>ZeroDivisionError\<close>, for Python scalars (where the interpreter raises) and for numpy
  operands (where numpy warns and produces an infinity) alike.
\<close>

datatype error =
    ZeroDivisionError
  | IndexError
  | BroadcastError
  | FitmodeNotImplemented int
  | LibraryError

definition rbind :: "error + 'a \<Rightarrow> ('a \<Rightarrow> error + 'b) \<Rightarrow> error + 'b" where
  "rbind m f = (case m of Inl e \<Rightarrow> Inl e | Inr x \<Rightarrow> f x)"

definition tiny :: real where
  "tiny = 1 / 10 ^ 10"

definition fdiv :: "real \<Rightarrow> real \<Rightarrow> error + real" where
  "fdiv a b = (if b = 0 then Inl ZeroDivisionError else Inr (a / b))"

definition vdiv :: "real list \<Rightarrow> real \<Rightarrow> error + real list" where
  "vdiv xs d = (if d = 0 then Inl ZeroDivisionError else Inr (map (\<lambda>x. x / d) xs))"

definition recip :: "real list \<Rightarrow> error + real list" where
  "recip xs = (if 0 \<in> set xs then Inl ZeroDivisionError else Inr (map (\<lambda>c. 1 / c) xs))"

definition clip :: "real \<Rightarrow> real \<Rightarrow> real \<Rightarrow> real" where
  "clip x lo hi = min (max x lo) hi"

definition zeros :: "nat \<Rightarrow> real list" where
  "zeros n = replicate n 0"

text \<open>\<open>a - b\<close> on two one-dimensional arrays, with numpy's broadcasting of a length-1 operand.\<close>

definition broadcast_sub :: "real list \<Rightarrow> real list \<Rightarrow> error + real list" where
  "broadcast_sub a b =
     (if length a = length b then Inr (map2 (-) a b)
      else if length a = 1 then Inr (map (\<lambda>y. a ! 0 - y) b)
      else if length b = 1 then Inr (map (\<lambda>x. x - b ! 0) a)
      else Inl BroadcastError)"

text \<open>\<open>np.linspace(start, stop, num)\<close> with the default \<open>endpoint=True\<close>.\<close>

definition linspace :: "real \<Rightarrow> real \<Rightarrow> nat \<Rightarrow> real list" where
  "linspace start stop num =
     (if num = 0 then []
      else if num = 1 then [start]
      else map (\<lambda>i. start + real i * ((stop - start) / real (num - 1))) [0..<num])"

text \<open>
  \<open>trapz(y, x, axis=0)\<close>: \<open>y\<close> is the list of the rows of a matrix with \<open>ncols\<close> columns,
  \<open>x\<close> the sample points, one per row.
\<close>

definition trapz :: "real list list \<Rightarrow> real list \<Rightarrow> nat \<Rightarrow> real list" where
  "trapz y x ncols =
     map (\<lambda>j. sum_list (map (\<lambda>i. (x ! (i + 1) - x ! i) * (y ! (i + 1) ! j + y ! i ! j) / 2)
                          [0..<length x - 1]))
         [0..<ncols]"

section \<open>The model evaluator \<open>fsum2d\<close> (fsum2d.py)\<close>

definition gamma_safe :: "real \<Rightarrow> real" where
  "gamma_safe gamma = max \<bar>gamma\<bar> tiny"

text \<open>The body of the exciton loop for one \<open>i\<close> that is not skipped: the array \<open>anx\<close>.\<close>

definition exciton_term ::
  "real \<Rightarrow> real \<Rightarrow> real \<Rightarrow> real \<Rightarrow> real list \<Rightarrow> nat \<Rightarrow> error + real list" where
  "exciton_term Eg Eb q gs xdata i =
     rbind (fdiv Eb ((real i - q) ^ 2)) (\<lambda>d.
     let Enx = Eg - d in
     rbind (vdiv (map (\<lambda>x. x - Enx) xdata) gs) (\<lambda>cosh_arg.
     let cosh_arg = map (\<lambda>c. clip c (- 700) 700) cosh_arg in
     rbind (fdiv (2 * Eb) ((real i - q) ^ 3)) (\<lambda>amp.
     rbind (recip (map cosh cosh_arg)) (\<lambda>sech.
     Inr (map (\<lambda>s. amp * s) sech)))))"

text \<open>The loop \<open>for i in range(1, 51)\<close>, run over the list of its indices, \<open>a1\<close> the accumulator.\<close>

fun exciton_loop ::
  "real \<Rightarrow> real \<Rightarrow> real \<Rightarrow> real \<Rightarrow> real list \<Rightarrow> nat list \<Rightarrow> real list \<Rightarrow> error + real list" where
  "exciton_loop Eg Eb q gs xdata [] a1 = Inr a1"
| "exciton_loop Eg Eb q gs xdata (i # rest) a1 =
     (if \<bar>real i - q\<bar> < tiny then exciton_loop Eg Eb q gs xdata rest a1
      else rbind (exciton_term Eg Eb q gs xdata i) (\<lambda>anx.
           exciton_loop Eg Eb q gs xdata rest (map2 (+) a1 anx)))"

definition band_denominator :: "real \<Rightarrow> real \<Rightarrow> error + real" where
  "band_denominator Eb energy_diff =
     rbind (fdiv Eb energy_diff) (\<lambda>sqrt_arg.
     if sqrt_arg \<le> 0 then Inr 1
     else let denominator = 1 - exp (- 2 * pi * sqrt sqrt_arg) in
          Inr (if \<bar>denominator\<bar> < tiny then tiny else denominator))"

text \<open>The body of the band loop: row \<open>a2[i, :]\<close> for the grid energy \<open>E[i]\<close>.\<close>

definition band_row ::
  "real \<Rightarrow> real \<Rightarrow> real \<Rightarrow> real \<Rightarrow> real list \<Rightarrow> real \<Rightarrow> error + real list" where
  "band_row Eg Eb mhcnp gs xdata Ei =
     (let energy_diff = Ei - Eg in
      if energy_diff \<le> 0 then Inr (zeros (length xdata))
      else
        let b = 10 * mhcnp * energy_diff + 126 * mhcnp ^ 2 * energy_diff ^ 2 in
        rbind (band_denominator Eb energy_diff) (\<lambda>denominator.
        rbind (vdiv (map (\<lambda>x. x - Ei) xdata) gs) (\<lambda>cosh_arg.
        let cosh_arg = map (\<lambda>c. clip c (- 700) 700) cosh_arg in
        rbind (recip (map cosh cosh_arg)) (\<lambda>sech.
        rbind (fdiv (1 + b) denominator) (\<lambda>w.
        Inr (map (\<lambda>s. s * w) sech))))))"

fun band_rows ::
  "real \<Rightarrow> real \<Rightarrow> real \<Rightarrow> real \<Rightarrow> real list \<Rightarrow> real list \<Rightarrow> error + real list list" where
  "band_rows Eg Eb mhcnp gs xdata [] = Inr []"
| "band_rows Eg Eb mhcnp gs xdata (Ei # rest) =
     rbind (band_row Eg Eb mhcnp gs xdata Ei) (\<lambda>row.
     rbind (band_rows Eg Eb mhcnp gs xdata rest) (\<lambda>rows.
     Inr (row # rows)))"

text \<open>
  \<open>fsum2d(params, xdata, ydata)\<close> returns \<open>(sse, FittedCurve, exciton, band)\<close>.
  \<open>params[0..5]\<close> are read first; a shorter vector is an \<open>IndexError\<close>.
\<close>

definition fsum2d ::
  "real list \<Rightarrow> real list \<Rightarrow> real list \<Rightarrow> error + (real \<times> real list \<times> real list \<times> real list)" where
  "fsum2d params xdata ydata =
     (if length params < 6 then Inl IndexError
      else
        let Eg = params ! 0; Eb = params ! 1; gamma = params ! 2;
            ucvsq = params ! 3; mhcnp = params ! 4; q = params ! 5;
            gs = gamma_safe gamma in
        rbind (exciton_loop Eg Eb q gs xdata [1..<51] (zeros (length xdata))) (\<lambda>a1.
        let E = linspace Eg (2 * Eg) (10 * length xdata) in
        rbind (band_rows Eg Eb mhcnp gs xdata E) (\<lambda>a2.
        let band_contribution = trapz a2 E (length xdata);
            FittedCurve = map (\<lambda>v. ucvsq * sqrt Eb * v) (map2 (+) band_contribution a1);
            exciton = map (\<lambda>v. ucvsq * sqrt Eb * v) a1;
            band = map (\<lambda>v. ucvsq * sqrt Eb * v) band_contribution in
        rbind (broadcast_sub FittedCurve ydata) (\<lambda>ErrorVector.
        let sse = sum_list (map (\<lambda>e. e ^ 2) ErrorVector);
            sse = (if mhcnp \<le> 0 then 10 * sse else sse) in
        Inr (sse, FittedCurve, exciton, band)))))"

subsection \<open>Closed forms\<close>

text \<open>
  The values the loops of \<open>fsum2d\<close> compute, as plain functions of the axis point: the
  floored band denominator (lines 78 to 85), one exciton term (zero when skipped), one entry
  of the band matrix, the trapezoidal sum over the grid, and the three returned curves.
  Lemma \<open>fsum2d_closed\<close> below proves that \<open>fsum2d\<close> returns them.
\<close>

definition sech :: "real \<Rightarrow> real" where
  "sech x = 1 / cosh x"

definition band_den :: "real \<Rightarrow> real \<Rightarrow> real" where
  "band_den Eb dE =
     (if Eb / dE \<le> 0 then 1
      else if \<bar>1 - exp (- 2 * pi * sqrt (Eb / dE))\<bar> < tiny then tiny
      else 1 - exp (- 2 * pi * sqrt (Eb / dE)))"

definition exciton_contrib :: "real \<Rightarrow> real \<Rightarrow> real \<Rightarrow> real \<Rightarrow> nat \<Rightarrow> real \<Rightarrow> real" where
  "exciton_contrib Eg Eb q gs i E =
     (if \<bar>real i - q\<bar> < tiny then 0
      else 2 * Eb / (real i - q) ^ 3 *
           (1 / cosh (clip ((E - (Eg - Eb / (real i - q) ^ 2)) / gs) (- 700) 700)))"

definition exciton_sum :: "real \<Rightarrow> real \<Rightarrow> real \<Rightarrow> real \<Rightarrow> nat list \<Rightarrow> real \<Rightarrow> real" where
  "exciton_sum Eg Eb q gs ns E = sum_list (map (\<lambda>i. exciton_contrib Eg Eb q gs i E) ns)"

definition band_integrand :: "real \<Rightarrow> real \<Rightarrow> real \<Rightarrow> real \<Rightarrow> real \<Rightarrow> real \<Rightarrow> real" where
  "band_integrand Eg Eb mhcnp gs Ei E =
     (if Ei - Eg \<le> 0 then 0
      else 1 / cosh (clip ((E - Ei) / gs) (- 700) 700) *
           ((1 + (10 * mhcnp * (Ei - Eg) + 126 * mhcnp ^ 2 * (Ei - Eg) ^ 2)) /
            band_den Eb (Ei - Eg)))"

definition band_sum :: "real \<Rightarrow> real \<Rightarrow> real \<Rightarrow> real \<Rightarrow> real list \<Rightarrow> real \<Rightarrow> real" where
  "band_sum Eg Eb mhcnp gs grid E =
     sum_list (map (\<lambda>i. (grid ! (i + 1) - grid ! i) *
                         (band_integrand Eg Eb mhcnp gs (grid ! (i + 1)) E +
                          band_integrand Eg Eb mhcnp gs (grid ! i) E) / 2)
                   [0..<length grid - 1])"

definition curve_scale :: "real list \<Rightarrow> real" where
  "curve_scale params = params ! 3 * sqrt (params ! 1)"

definition exciton_curve :: "real list \<Rightarrow> real list \<Rightarrow> real list" where
  "exciton_curve params xdata =
     map (\<lambda>E. curve_scale params *
               exciton_sum (params ! 0) (params ! 1) (params ! 5) (gamma_safe (params ! 2))
                 [1..<51] E) xdata"

definition band_curve :: "real list \<Rightarrow> real list \<Rightarrow> real list" where
  "band_curve params xdata =
     map (\<lambda>E. curve_scale params *
               band_sum (params ! 0) (params ! 1) (params ! 4) (gamma_safe (params ! 2))
                 (linspace (params ! 0) (2 * params ! 0) (10 * length xdata)) E) xdata"

definition fitted_curve :: "real list \<Rightarrow> real list \<Rightarrow> real list" where
  "fitted_curve params xdata =
     map (\<lambda>E. curve_scale params *
               (band_sum (params ! 0) (params ! 1) (params ! 4) (gamma_safe (params ! 2))
                  (linspace (params ! 0) (2 * params ! 0) (10 * length xdata)) E +
                exciton_sum (params ! 0) (params ! 1) (params ! 5) (gamma_safe (params ! 2))
                  [1..<51] E)) xdata"

section \<open>The fitter (fitter.py)\<close>

text \<open>
  The instance fields of \<open>FSumFitter\<close>.  \<open>__init__\<close> stores its three arguments and the
  default start point and bounds.
\<close>

record fitter =
  deltaE :: real
  NS :: int
  fitmode :: int
  start_point :: "real list"
  lb :: "real list"
  rb :: "real list"

definition init_fitter :: "real \<Rightarrow> int \<Rightarrow> int \<Rightarrow> fitter" where
  "init_fitter dE ns mode =
     \<lparr> deltaE = dE, NS = ns, fitmode = mode,
       start_point = [2.62, 0.050, 0.043, 37, 0.060, 0],
       lb = [2.54, 0.01, 0.00, 0.010, 0.000, 0.0],
       rb = [2.68, 0.2, 0.20, 1000.0, 0.999, 1.5] \<rparr>"

text \<open>
  Two library routines are parameters of the model.  \<open>polyfit x y\<close> stands for
  \<open>np.polyfit(x, y, 1)\<close> and returns \<open>(slope, intercept)\<close> or raises; \<open>minimize\<close> stands for
  \<open>scipy.optimize.minimize\<close> with the fixed method and options of \<open>fit_data\<close>, applied to
  an objective, a start point and the lower and upper bounds, and returns \<open>result.x\<close> or
  raises.  Nothing is assumed about either.
\<close>

type_synonym polyfit = "real list \<Rightarrow> real list \<Rightarrow> error + (real \<times> real)"

type_synonym minimize =
  "(real list \<Rightarrow> error + real) \<Rightarrow> real list \<Rightarrow> real list \<Rightarrow> real list \<Rightarrow> error + real list"

subsection \<open>Masks\<close>

text \<open>\<open>np.sum(mask)\<close> and boolean indexing \<open>xs[mask]\<close> (for operands of one length).\<close>

definition count_true :: "bool list \<Rightarrow> nat" where
  "count_true bs = length (filter (\<lambda>b. b) bs)"

definition select :: "'a list \<Rightarrow> bool list \<Rightarrow> 'a list" where
  "select xs bs = map fst (filter snd (zip xs bs))"

text \<open>
  \<open>mask = np.zeros(len, dtype=bool); mask[:n] = True\<close>, and the same with \<open>mask[-n:] = True\<close>
  for \<open>n > 0\<close> (a slice that reaches past the start of the array is cut there).
\<close>

definition head_mask :: "nat \<Rightarrow> nat \<Rightarrow> bool list" where
  "head_mask len n = map (\<lambda>i. i < n) [0..<len]"

definition tail_mask :: "nat \<Rightarrow> nat \<Rightarrow> bool list" where
  "tail_mask len n = map (\<lambda>i. len - n \<le> i) [0..<len]"

text \<open>\<open>max(10, min(50, int(len(xdata) * 0.3)))\<close>.\<close>

definition n_points :: "nat \<Rightarrow> nat" where
  "n_points len = max 10 (min 50 (nat \<lfloor>real len * 0.3\<rfloor>))"

subsection \<open>\<open>fit_baseline\<close>\<close>

text \<open>
  Lines 73 to 123: the points used for the baseline.  \<open>xdata[0] < xdata[-1]\<close> raises
  \<open>IndexError\<close> on an empty axis in the branches that test the orientation.
\<close>

definition baseline_mask :: "real list \<Rightarrow> real option \<Rightarrow> real option \<Rightarrow> error + bool list" where
  "baseline_mask xdata Eg Eb =
     (case Eg of
        Some eg \<Rightarrow>
          (if (case Eb of Some eb \<Rightarrow> eb > 0 | None \<Rightarrow> False) then
             (let safe_threshold = eg - 1.5 * the Eb in
              if xdata = [] then Inl IndexError
              else
                let msk = map (\<lambda>x. x < safe_threshold) xdata in
                if count_true msk < 5 then
                  (if hd xdata < last xdata
                   then Inr (head_mask (length xdata) (n_points (length xdata)))
                   else Inr (tail_mask (length xdata) (n_points (length xdata))))
                else Inr msk)
           else
             (let msk = map (\<lambda>x. x < eg) xdata in
              if count_true msk < 5
              then Inr (head_mask (length xdata) (min 20 (length xdata)))
              else Inr msk))
      | None \<Rightarrow>
          (if xdata = [] then Inl IndexError
           else if hd xdata < last xdata
           then Inr (head_mask (length xdata) (n_points (length xdata)))
           else Inr (tail_mask (length xdata) (n_points (length xdata)))))"

text \<open>
  \<open>fit_baseline(self, xdata, ydata, Eg=None, Eb=None)\<close>, with \<open>self.fitmode\<close> passed as
  \<open>mode\<close>; it returns \<open>(baseline, baseline_mask)\<close>.  \<open>ydata[baseline_mask]\<close> raises
  \<open>IndexError\<close> when \<open>ydata\<close> has not the length of the mask.
\<close>

definition fit_baseline ::
  "polyfit \<Rightarrow> int \<Rightarrow> real list \<Rightarrow> real list \<Rightarrow> real option \<Rightarrow> real option \<Rightarrow>
   error + (real list \<times> bool list)" where
  "fit_baseline polyfit mode xdata ydata Eg Eb =
     (if mode = 0 then Inr (zeros (length xdata), replicate (length xdata) False)
      else
        rbind (baseline_mask xdata Eg Eb) (\<lambda>msk.
        if length ydata \<noteq> length xdata then Inl IndexError
        else
          let x_fit = select xdata msk; y_fit = select ydata msk in
          if length x_fit < 2 then Inr (zeros (length xdata), msk)
          else if mode = 1 then
            rbind (polyfit x_fit y_fit) (\<lambda>(slope, intercept).
            Inr (map (\<lambda>x. slope * x + intercept) xdata, msk))
          else if mode = 2 then
            (let E4_fit = map (\<lambda>x. x ^ 4) x_fit; E8_fit = map (\<lambda>x. x ^ 8) x_fit in
             if sum_list E8_fit < tiny then Inr (zeros (length xdata), msk)
             else
               rbind (fdiv (sum_list (map2 (*) y_fit E4_fit)) (sum_list E8_fit)) (\<lambda>a.
               Inr (map (\<lambda>x. a * x ^ 4) xdata, msk)))
          else Inl (FitmodeNotImplemented mode)))"

subsection \<open>\<open>objective_function\<close> and \<open>fit_data\<close>\<close>

definition objective_function :: "real list \<Rightarrow> real list \<Rightarrow> real list \<Rightarrow> error + real" where
  "objective_function params xdata ydata =
     rbind (fsum2d params xdata ydata) (\<lambda>(sse, FittedCurve, exciton, band). Inr sse)"

definition fit_data ::
  "minimize \<Rightarrow> fitter \<Rightarrow> real list \<Rightarrow> real list \<Rightarrow> real list option \<Rightarrow>
   (real list \<times> real list) option \<Rightarrow>
   error + (real list \<times> real \<times> real list \<times> real list \<times> real list)" where
  "fit_data minimize self xdata ydata start bounds =
     (let start = (case start of None \<Rightarrow> start_point self | Some s \<Rightarrow> s);
          bounds = (case bounds of None \<Rightarrow> (lb self, rb self) | Some b \<Rightarrow> b) in
      rbind (minimize (\<lambda>params. objective_function params xdata ydata) start
               (fst bounds) (snd bounds)) (\<lambda>estimates.
      rbind (fsum2d estimates xdata ydata) (\<lambda>(sse, FittedCurve, exciton, band).
      Inr (estimates, sse, FittedCurve, exciton, band))))"

subsection \<open>\<open>calculate_urbach_energy\<close>\<close>

text \<open>The slice \<open>xs[a:b]\<close> for \<open>0 \<le> a\<close>.\<close>

definition slice :: "'a list \<Rightarrow> nat \<Rightarrow> nat \<Rightarrow> 'a list" where
  "slice xs a b = take (b - a) (drop a xs)"

text \<open>
  \<open>indices\<close> is \<open>np.where(xdata < threshold)[0]\<close>.  When it is not empty the axis is not
  empty, so \<open>len(xdata) - 1\<close> is a natural number.
\<close>

definition calculate_urbach_energy ::
  "polyfit \<Rightarrow> real list \<Rightarrow> real list \<Rightarrow> real \<Rightarrow> real \<Rightarrow> error + (real \<times> real \<times> real list)" where
  "calculate_urbach_energy polyfit xdata ydata Eb Eg =
     (let threshold = \<bar>Eb - Eg\<bar>;
          indices = filter (\<lambda>i. xdata ! i < threshold) [0..<length xdata] in
      if length indices = 0 then Inr (0, 0, zeros (length xdata))
      else
        let index = indices ! 0;
            start_idx = min (index + 2) (length xdata - 1);
            end_idx = min (index + 10) (length xdata) in
        if end_idx \<le> start_idx then Inr (0, 0, zeros (length xdata))
        else
          let x_fit = slice xdata start_idx end_idx;
              y_fit = slice ydata start_idx end_idx;
              log_y = map ln y_fit in
          rbind (polyfit x_fit log_y) (\<lambda>(slope, intersect).
          Inr (slope, intersect, map (\<lambda>x. intersect + slope * x) xdata)))"

subsection \<open>\<open>process_file\<close>\<close>

text \<open>
  The model of \<open>process_file\<close> starts after the file is read and the first column is
  converted to eV (lines 291 to 375 are outside it): \<open>xdata\<close> is the energy axis in eV and
  \<open>columns\<close> are the absorption columns \<open>raw[:, 1]\<close>, \<open>raw[:, 2]\<close>, ... of the table, each of
  the length of the axis.  The \<open>print\<close> calls are left out; none of them can raise where it
  is reached.

  Three numpy reductions, by their documented values: the mean, the median (the middle
  element of the sorted array, or the mean of the two middle ones) and the percentile with
  linear interpolation between the two nearest ranks.  The mean of an empty array is NaN in
  numpy and 0 here; the only use of it then is inside a sum over that empty array.
\<close>

definition mean :: "real list \<Rightarrow> real" where
  "mean xs = sum_list xs / real (length xs)"

definition median :: "real list \<Rightarrow> real" where
  "median xs =
     (let s = sort xs; n = length xs in
      if even n then (s ! (n div 2 - 1) + s ! (n div 2)) / 2 else s ! (n div 2))"

definition percentile :: "real list \<Rightarrow> real \<Rightarrow> real" where
  "percentile xs q =
     (let s = sort xs; n = length xs;
          h = real (n - 1) * q / 100;
          lo = nat \<lfloor>h\<rfloor>; hi = min (lo + 1) (n - 1) in
      s ! lo + (h - real lo) * (s ! hi - s ! lo))"

text \<open>Boolean indexing \<open>xs[mask]\<close>: numpy raises \<open>IndexError\<close> when the lengths differ.\<close>

definition bselect :: "real list \<Rightarrow> bool list \<Rightarrow> error + real list" where
  "bselect xs msk = (if length xs = length msk then Inr (select xs msk) else Inl IndexError)"

text \<open>
  One entry of each per-dataset list or column of the results dictionary, under the key of
  the dictionary.
\<close>

record dataset_result =
  fitresult :: "real list"
  quality :: real
  slopes :: real
  intersects :: real
  fittedcurves :: "real list"
  fittedexciton :: "real list"
  fittedband :: "real list"
  fittedurbach :: "real list"
  fittedbaseline :: "real list"
  cleandata :: "real list"
  fit_masks :: "bool list"
  baseline_masks :: "bool list"

text \<open>Step 0, lines 410 to 426: the initial baseline of a dataset.\<close>

definition initial_baseline ::
  "polyfit \<Rightarrow> fitter \<Rightarrow> real list \<Rightarrow> real list \<Rightarrow> error + (real list \<times> bool list)" where
  "initial_baseline polyfit self xdata rawcol =
     (if fitmode self = 0 then Inr (zeros (length xdata), replicate (length xdata) False)
      else if xdata = [] then Inl IndexError
      else fit_baseline polyfit (fitmode self) xdata rawcol None None)"

text \<open>
  Lines 437 to 456: the scan for the first point above 0.01, forwards on an axis with
  \<open>xdata[0] < xdata[-1]\<close> and backwards otherwise, with the median as the \<open>for ... else\<close>.
\<close>

definition detect_initial_Eg :: "real list \<Rightarrow> real list \<Rightarrow> error + real" where
  "detect_initial_Eg xdata cleaned_data =
     (if xdata = [] then Inl IndexError
      else
        let order = (if hd xdata < last xdata then [0..<length cleaned_data]
                     else rev [0..<length cleaned_data]) in
        case find (\<lambda>idx. cleaned_data ! idx > 0.01) order of
          Some idx \<Rightarrow> (if idx < length xdata then Inr (xdata ! idx) else Inl IndexError)
        | None \<Rightarrow> Inr (median xdata))"

text \<open>Steps 0 and 1 together: the initial bandgap and the initial baseline.\<close>

definition bandgap_detection ::
  "polyfit \<Rightarrow> fitter \<Rightarrow> real list \<Rightarrow> real list \<Rightarrow> error + (real \<times> real list)" where
  "bandgap_detection polyfit self xdata rawcol =
     rbind (initial_baseline polyfit self xdata rawcol) (\<lambda>(initial_baseline, initial_baseline_mask).
     rbind (if fitmode self = 0 then Inr rawcol else broadcast_sub rawcol initial_baseline)
       (\<lambda>cleaned_data.
     rbind (detect_initial_Eg xdata cleaned_data) (\<lambda>initial_Eg.
     Inr (initial_Eg, initial_baseline))))"

text \<open>Lines 463 to 479.  An assignment to an index an array has not raises \<open>IndexError\<close>.\<close>

definition dynamic_start_point :: "fitter \<Rightarrow> real \<Rightarrow> error + real list" where
  "dynamic_start_point self initial_Eg =
     (if length (start_point self) < 6 then Inl IndexError
      else Inr ((start_point self)[0 := initial_Eg, 1 := 0.050, 5 := 0.0]))"

definition dynamic_bounds :: "fitter \<Rightarrow> real \<Rightarrow> error + (real list \<times> real list)" where
  "dynamic_bounds self initial_Eg =
     (if lb self = [] \<or> rb self = [] then Inl IndexError
      else
        let dynamic_lb = (lb self)[0 := initial_Eg - 0.2];
            dynamic_rb = (rb self)[0 := initial_Eg + 0.2] in
        if dynamic_lb ! 0 \<ge> dynamic_rb ! 0
        then Inr (dynamic_lb[0 := initial_Eg - 0.3], dynamic_rb[0 := initial_Eg + 0.3])
        else Inr (dynamic_lb, dynamic_rb))"

definition prelim_mask :: "real list \<Rightarrow> bool list" where
  "prelim_mask xdata =
     map (\<lambda>x. x \<ge> percentile xdata 10 \<and> x \<le> percentile xdata 90) xdata"

text \<open>\<open>mask &= (xdata >= min_energy)\<close> and \<open>mask &= (xdata <= max_energy)\<close>, each if given.\<close>

definition restrict_mask :: "real list \<Rightarrow> real option \<Rightarrow> real option \<Rightarrow> bool list \<Rightarrow> bool list" where
  "restrict_mask xdata min_energy max_energy msk =
     map2 (\<lambda>b x. b \<and> (case min_energy of None \<Rightarrow> True | Some lo \<Rightarrow> x \<ge> lo)
                    \<and> (case max_energy of None \<Rightarrow> True | Some hi \<Rightarrow> x \<le> hi)) msk xdata"

text \<open>Step 5, lines 523 to 532.\<close>

definition final_fit_mask :: "real list \<Rightarrow> real option \<Rightarrow> real option \<Rightarrow> bool list" where
  "final_fit_mask xdata min_energy max_energy =
     (let fit_mask = restrict_mask xdata min_energy max_energy (replicate (length xdata) True) in
      if count_true fit_mask < 10 then replicate (length xdata) True else fit_mask)"

text \<open>Lines 548 to 558.\<close>

definition auto_mask :: "real list \<Rightarrow> real \<Rightarrow> real option \<Rightarrow> real option \<Rightarrow> bool list" where
  "auto_mask xdata approx_Eg min_energy max_energy =
     restrict_mask xdata min_energy max_energy
       (map (\<lambda>x. x \<ge> approx_Eg - 0.5 \<and> x \<le> approx_Eg + 0.5) xdata)"

text \<open>\<open>self.fit_data(xdata[msk], ydata[msk], start_point=start, bounds=bounds)\<close>.\<close>

definition fit_masked ::
  "minimize \<Rightarrow> fitter \<Rightarrow> real list \<Rightarrow> real list \<Rightarrow> bool list \<Rightarrow> real list \<Rightarrow>
   (real list \<times> real list) \<Rightarrow>
   error + (real list \<times> real \<times> real list \<times> real list \<times> real list)" where
  "fit_masked minimize self xdata ydata msk start bounds =
     rbind (bselect xdata msk) (\<lambda>x_fit.
     rbind (bselect ydata msk) (\<lambda>y_fit.
     fit_data minimize self x_fit y_fit (Some start) (Some bounds)))"

text \<open>
  Step 6, line 538: the final fit on the mask of step 5, which yields \<open>estimates\<close>, \<open>sse\<close> and
  the mask.
\<close>

definition final_fit ::
  "minimize \<Rightarrow> fitter \<Rightarrow> real list \<Rightarrow> real list \<Rightarrow> real option \<Rightarrow> real option \<Rightarrow> real list \<Rightarrow>
   (real list \<times> real list) \<Rightarrow> error + (real list \<times> real \<times> bool list)" where
  "final_fit minimize self xdata ydata min_energy max_energy prelim_estimates bounds =
     (let fit_mask = final_fit_mask xdata min_energy max_energy in
      rbind (fit_masked minimize self xdata ydata fit_mask prelim_estimates bounds)
        (\<lambda>(estimates, sse, FittedCurve, exciton, band).
      Inr (estimates, sse, fit_mask)))"

text \<open>
  Lines 543 to 572: the refit on the window around the fitted bandgap.  \<open>auto_range\<close> is
  \<open>None\<close>, \<open>True\<close> or \<open>False\<close>; the test is \<open>auto_range is not False\<close>.
\<close>

definition auto_range_refit ::
  "minimize \<Rightarrow> fitter \<Rightarrow> real list \<Rightarrow> real list \<Rightarrow> real option \<Rightarrow> real option \<Rightarrow> bool option \<Rightarrow>
   (real list \<times> real list) \<Rightarrow> (real list \<times> real \<times> bool list) \<Rightarrow>
   error + (real list \<times> real \<times> bool list)" where
  "auto_range_refit minimize self xdata ydata min_energy max_energy auto_range bounds st =
     (case st of (estimates, sse, fit_mask) \<Rightarrow>
        if auto_range = Some False then Inr (estimates, sse, fit_mask)
        else if estimates = [] then Inl IndexError
        else
          let approx_Eg = estimates ! 0;
              auto_msk = auto_mask xdata approx_Eg min_energy max_energy in
          if count_true auto_msk > 10 then
            rbind (fit_masked minimize self xdata ydata auto_msk estimates bounds)
              (\<lambda>(estimates, sse, FittedCurve, exciton, band).
            Inr (estimates, sse, auto_msk))
          else Inr (estimates, sse, fit_mask))"

text \<open>
  Everything of one loop iteration before line 575: it reads \<open>self\<close> and changes nothing.
  The value is \<open>(estimates, sse, fit_mask, baseline, baseline_mask, ydata)\<close>.
\<close>

definition fit_stages ::
  "minimize \<Rightarrow> polyfit \<Rightarrow> fitter \<Rightarrow> real list \<Rightarrow> real list \<Rightarrow> real option \<Rightarrow> real option \<Rightarrow>
   bool option \<Rightarrow>
   error + (real list \<times> real \<times> bool list \<times> real list \<times> bool list \<times> real list)" where
  "fit_stages minimize polyfit self xdata rawcol min_energy max_energy auto_range =
     rbind (bandgap_detection polyfit self xdata rawcol) (\<lambda>(initial_Eg, initial_baseline).
     rbind (dynamic_start_point self initial_Eg) (\<lambda>dynamic_start.
     rbind (dynamic_bounds self initial_Eg) (\<lambda>bounds.
     rbind (broadcast_sub rawcol initial_baseline) (\<lambda>initial_cleandata.
     rbind (fit_masked minimize self xdata initial_cleandata (prelim_mask xdata)
              dynamic_start bounds) (\<lambda>(prelim_estimates, prelim_sse, c1, c2, c3).
     rbind (if length prelim_estimates < 2 then Inl IndexError
            else Inr (prelim_estimates ! 0, prelim_estimates ! 1)) (\<lambda>(approx_Eg, approx_Eb).
     rbind (if fitmode self = 0
            then Inr (zeros (length xdata), replicate (length xdata) False)
            else fit_baseline polyfit (fitmode self) xdata rawcol (Some approx_Eg) (Some approx_Eb))
       (\<lambda>(baseline, baseline_msk).
     rbind (broadcast_sub rawcol baseline) (\<lambda>ydata.
     rbind (final_fit minimize self xdata ydata min_energy max_energy prelim_estimates bounds)
       (\<lambda>st.
     rbind (auto_range_refit minimize self xdata ydata min_energy max_energy auto_range bounds st)
       (\<lambda>(estimates, sse, fit_mask).
     Inr (estimates, sse, fit_mask, baseline, baseline_msk, ydata)))))))))))"

text \<open>Lines 586 to 589.  \<open>ss_tot\<close> is positive where \<open>sse\<close> is divided by it.\<close>

definition ss_tot :: "real list \<Rightarrow> real" where
  "ss_tot ydata_fit = sum_list (map (\<lambda>y. (y - mean ydata_fit) ^ 2) ydata_fit)"

definition r_squared :: "real \<Rightarrow> real list \<Rightarrow> error + real" where
  "r_squared sse ydata_fit =
     (if ss_tot ydata_fit > 0 then rbind (fdiv sse (ss_tot ydata_fit)) (\<lambda>r. Inr (1 - r))
      else Inr 0)"

text \<open>Lines 577 to 602: the curves on the whole axis, the quality and the Urbach tail.\<close>

definition report ::
  "polyfit \<Rightarrow> real list \<Rightarrow>
   (real list \<times> real \<times> bool list \<times> real list \<times> bool list \<times> real list) \<Rightarrow>
   error + dataset_result" where
  "report polyfit xdata st =
     (case st of (estimates, sse, fit_mask, baseline, baseline_msk, ydata) \<Rightarrow>
        rbind (fsum2d estimates xdata ydata) (\<lambda>(full_sse, FittedCurve, exciton, band).
        rbind (bselect ydata fit_mask) (\<lambda>ydata_fit.
        rbind (r_squared sse ydata_fit) (\<lambda>r2.
        rbind (if length estimates < 2 then Inl IndexError
               else calculate_urbach_energy polyfit xdata ydata (estimates ! 1) (estimates ! 0))
          (\<lambda>(slope, intersect, fitted_urbach).
        Inr \<lparr> fitresult = estimates, quality = r2, slopes = slope, intersects = intersect,
              fittedcurves = FittedCurve, fittedexciton = exciton, fittedband = band,
              fittedurbach = fitted_urbach, fittedbaseline = baseline, cleandata = ydata,
              fit_masks = fit_mask, baseline_masks = baseline_msk \<rparr>)))))"

text \<open>
  One iteration of the dataset loop.  The only assignment to a field of \<open>self\<close> is line 575,
  \<open>self.start_point = estimates.copy()\<close>; an exception before it leaves \<open>self\<close> as it was,
  one after it leaves the new start point in place.  The value is the fitter after the
  iteration and the outcome.
\<close>

definition process_dataset ::
  "minimize \<Rightarrow> polyfit \<Rightarrow> fitter \<Rightarrow> real list \<Rightarrow> real list \<Rightarrow> real option \<Rightarrow> real option \<Rightarrow>
   bool option \<Rightarrow> fitter \<times> (error + dataset_result)" where
  "process_dataset minimize polyfit self xdata rawcol min_energy max_energy auto_range =
     (case fit_stages minimize polyfit self xdata rawcol min_energy max_energy auto_range of
        Inl e \<Rightarrow> (self, Inl e)
      | Inr st \<Rightarrow> (self\<lparr> start_point := fst st \<rparr>, report polyfit xdata st))"

text \<open>
  The loop \<open>for i in range(1, data_size[1])\<close> over the numbered columns; \<open>T0\<close> is the list of
  the selected datasets, 0-indexed, and \<open>acc\<close> the results so far with their indices
  (\<open>processed_T\<close>).
\<close>

fun process_columns ::
  "minimize \<Rightarrow> polyfit \<Rightarrow> real list \<Rightarrow> int list \<Rightarrow> real option \<Rightarrow> real option \<Rightarrow> bool option \<Rightarrow>
   fitter \<Rightarrow> (nat \<times> real list) list \<Rightarrow> (nat \<times> dataset_result) list \<Rightarrow>
   fitter \<times> (error + (nat \<times> dataset_result) list)" where
  "process_columns minimize polyfit xdata T0 min_energy max_energy auto_range self [] acc =
     (self, Inr acc)"
| "process_columns minimize polyfit xdata T0 min_energy max_energy auto_range self
     ((i, rawcol) # rest) acc =
     (if int i - 1 \<notin> set T0
      then process_columns minimize polyfit xdata T0 min_energy max_energy auto_range self rest acc
      else
        case process_dataset minimize polyfit self xdata rawcol min_energy max_energy auto_range of
          (self', Inl e) \<Rightarrow> (self', Inl e)
        | (self', Inr r) \<Rightarrow>
            process_columns minimize polyfit xdata T0 min_energy max_energy auto_range self' rest
              (acc @ [(i, r)]))"

definition process_file ::
  "minimize \<Rightarrow> polyfit \<Rightarrow> fitter \<Rightarrow> real list \<Rightarrow> real list list \<Rightarrow> int list option \<Rightarrow>
   real option \<Rightarrow> real option \<Rightarrow> bool option \<Rightarrow>
   fitter \<times> (error + (nat \<times> dataset_result) list)" where
  "process_file minimize polyfit self xdata columns T min_energy max_energy auto_range =
     (let T0 = (case T of None \<Rightarrow> map int [0..<length columns]
                | Some ts \<Rightarrow> map (\<lambda>t. t - 1) ts) in
      process_columns minimize polyfit xdata T0 min_energy max_energy auto_range self
        (zip [1..<length columns + 1] columns) [])"

subsection \<open>A worked example\<close>

text \<open>
  Twelve energies from 1.0 eV to 2.1 eV and an absorption column with an edge at 1.5 eV,
  used below to run the pipeline on concrete data.
\<close>

definition example_axis :: "real list" where
  "example_axis = [1.0, 1.1, 1.2, 1.3, 1.4, 1.5, 1.6, 1.7, 1.8, 1.9, 2.0, 2.1]"

definition example_column :: "real list" where
  "example_column = [0, 0, 0, 0, 0, 0.5, 1, 1, 1, 1, 1, 1]"

section \<open>Properties of the model evaluator\<close>

subsection \<open>Closed forms of the loops\<close>

lemma tiny_pos: "0 < tiny" by (simp add: tiny_def)

lemma gamma_safe_pos: "0 < gamma_safe g"
  using tiny_pos by (simp add: gamma_safe_def less_max_iff_disj)

lemma recip_cosh: "recip (map cosh xs) = Inr (map (\<lambda>x. 1 / cosh x) xs)"
proof -
  have "0 \<notin> set (map cosh xs)" by auto
  then show ?thesis by (simp add: recip_def o_def)
qed

lemma exciton_term_closed:
  assumes "gs \<noteq> 0" and "\<not> \<bar>real i - q\<bar> < tiny"
  shows "exciton_term Eg Eb q gs xdata i =
         Inr (map (\<lambda>E. 2 * Eb / (real i - q) ^ 3 *
                        (1 / cosh (clip ((E - (Eg - Eb / (real i - q) ^ 2)) / gs) (- 700) 700)))
                  xdata)"
proof -
  have "real i - q \<noteq> 0" using assms(2) tiny_pos by auto
  then show ?thesis
    using assms(1) by (simp add: exciton_term_def fdiv_def vdiv_def recip_cosh rbind_def o_def Let_def)
qed

lemma band_den_pos: "0 < band_den Eb dE"
proof (cases "Eb / dE \<le> 0")
  case True then show ?thesis by (simp add: band_den_def)
next
  case False
  then have "0 < sqrt (Eb / dE)" by simp
  then have "0 < 2 * pi * sqrt (Eb / dE)" by simp
  then have "exp (- 2 * pi * sqrt (Eb / dE)) < 1" by simp
  then show ?thesis using False tiny_pos by (simp add: band_den_def)
qed

lemma band_denominator_closed:
  "0 < dE \<Longrightarrow> band_denominator Eb dE = Inr (band_den Eb dE)"
  by (simp add: band_denominator_def band_den_def fdiv_def rbind_def Let_def)

lemma band_row_closed:
  assumes "gs \<noteq> 0" and "0 < Ei - Eg"
  shows "band_row Eg Eb mhcnp gs xdata Ei =
         Inr (map (\<lambda>E. 1 / cosh (clip ((E - Ei) / gs) (- 700) 700) *
                        ((1 + (10 * mhcnp * (Ei - Eg) + 126 * mhcnp ^ 2 * (Ei - Eg) ^ 2)) /
                         band_den Eb (Ei - Eg)))
                  xdata)"
  using assms band_den_pos[of Eb "Ei - Eg"]
  by (simp add: band_row_def band_denominator_closed fdiv_def vdiv_def recip_cosh rbind_def
      o_def Let_def)

lemma exciton_loop_closed:
  assumes "gs \<noteq> 0"
  shows "length a1 = length xdata \<Longrightarrow>
         exciton_loop Eg Eb q gs xdata ns a1 =
         Inr (map2 (\<lambda>a E. a + exciton_sum Eg Eb q gs ns E) a1 xdata)"
proof (induction ns arbitrary: a1)
  case Nil
  then have "map2 (\<lambda>a E. a + exciton_sum Eg Eb q gs [] E) a1 xdata = a1"
    by (intro nth_equalityI) (simp_all add: exciton_sum_def)
  then show ?case by simp
next
  case (Cons i rest)
  show ?case
  proof (cases "\<bar>real i - q\<bar> < tiny")
    case True
    then show ?thesis
      using Cons.IH[OF Cons.prems] by (simp add: exciton_sum_def exciton_contrib_def)
  next
    case False
    let ?anx = "map (\<lambda>E. exciton_contrib Eg Eb q gs i E) xdata"
    have t: "exciton_term Eg Eb q gs xdata i = Inr ?anx"
      using exciton_term_closed[OF assms False] False by (simp add: exciton_contrib_def)
    have len: "length (map2 (+) a1 ?anx) = length xdata" using Cons.prems by simp
    have "map2 (\<lambda>a E. a + exciton_sum Eg Eb q gs rest E) (map2 (+) a1 ?anx) xdata =
          map2 (\<lambda>a E. a + exciton_sum Eg Eb q gs (i # rest) E) a1 xdata"
      using Cons.prems by (intro nth_equalityI) (simp_all add: exciton_sum_def)
    then show ?thesis
      using False t Cons.IH[OF len] by (simp add: rbind_def)
  qed
qed

lemma exciton_loop_zeros:
  assumes "gs \<noteq> 0"
  shows "exciton_loop Eg Eb q gs xdata ns (zeros (length xdata)) =
         Inr (map (exciton_sum Eg Eb q gs ns) xdata)"
proof -
  have "map2 (\<lambda>a E. a + exciton_sum Eg Eb q gs ns E) (zeros (length xdata)) xdata =
        map (exciton_sum Eg Eb q gs ns) xdata"
    by (intro nth_equalityI) (simp_all add: zeros_def)
  then show ?thesis using exciton_loop_closed[OF assms, of "zeros (length xdata)" xdata]
    by (simp add: zeros_def)
qed

lemma band_row_integrand:
  assumes "gs \<noteq> 0"
  shows "band_row Eg Eb mhcnp gs xdata Ei = Inr (map (band_integrand Eg Eb mhcnp gs Ei) xdata)"
proof (cases "Ei - Eg \<le> 0")
  case True
  then have "zeros (length xdata) = map (band_integrand Eg Eb mhcnp gs Ei) xdata"
    by (intro nth_equalityI) (simp_all add: zeros_def band_integrand_def)
  then show ?thesis using True by (simp add: band_row_def)
next
  case False
  then have "0 < Ei - Eg" by simp
  from band_row_closed[OF assms this] False show ?thesis by (simp add: band_integrand_def)
qed

lemma band_rows_closed:
  assumes "gs \<noteq> 0"
  shows "band_rows Eg Eb mhcnp gs xdata grid =
         Inr (map (\<lambda>Ei. map (band_integrand Eg Eb mhcnp gs Ei) xdata) grid)"
  by (induction grid) (simp_all add: band_row_integrand[OF assms] rbind_def)

lemma trapz_closed:
  "trapz (map (\<lambda>Ei. map (g Ei) xdata) grid) grid (length xdata) =
   map (\<lambda>E. sum_list (map (\<lambda>i. (grid ! (i + 1) - grid ! i) *
                                  (g (grid ! (i + 1)) E + g (grid ! i) E) / 2)
                            [0..<length grid - 1])) xdata"
proof -
  have h: "map (\<lambda>i. (grid ! (i + 1) - grid ! i) *
                 (map (\<lambda>Ei. map (g Ei) xdata) grid ! (i + 1) ! j +
                  map (\<lambda>Ei. map (g Ei) xdata) grid ! i ! j) / 2) [0..<length grid - 1] =
        map (\<lambda>i. (grid ! (i + 1) - grid ! i) *
                 (g (grid ! (i + 1)) (xdata ! j) + g (grid ! i) (xdata ! j)) / 2)
            [0..<length grid - 1]" if "j < length xdata" for j
    using that by (intro map_cong) auto
  show ?thesis
    unfolding trapz_def by (intro nth_equalityI) (simp_all add: h del: One_nat_def add_Suc_right)
qed

text \<open>The three curves of \<open>fsum2d\<close> in closed form.\<close>

lemma map2_add_maps:
  "map2 (+) (map f xdata) (map g xdata) = map (\<lambda>E. f E + g E) xdata"
  by (intro nth_equalityI) simp_all

lemma fsum2d_closed:
  assumes "6 \<le> length params"
  shows "fsum2d params xdata ydata =
         rbind (broadcast_sub (fitted_curve params xdata) ydata) (\<lambda>ErrorVector.
           Inr ((if params ! 4 \<le> 0 then 10 * sum_list (map (\<lambda>e. e ^ 2) ErrorVector)
                 else sum_list (map (\<lambda>e. e ^ 2) ErrorVector)),
                fitted_curve params xdata, exciton_curve params xdata, band_curve params xdata))"
proof -
  define gs where "gs = gamma_safe (params ! 2)"
  define grid where "grid = linspace (params ! 0) (2 * params ! 0) (10 * length xdata)"
  have gs: "gs \<noteq> 0" using gamma_safe_pos[of "params ! 2"] by (simp add: gs_def)
  have a1: "exciton_loop (params ! 0) (params ! 1) (params ! 5) gs xdata [1..<51]
              (zeros (length xdata)) =
            Inr (map (exciton_sum (params ! 0) (params ! 1) (params ! 5) gs [1..<51]) xdata)"
    by (rule exciton_loop_zeros[OF gs])
  have a2: "band_rows (params ! 0) (params ! 1) (params ! 4) gs xdata grid =
            Inr (map (\<lambda>Ei. map (band_integrand (params ! 0) (params ! 1) (params ! 4) gs Ei) xdata)
                   grid)"
    by (rule band_rows_closed[OF gs])
  have bc: "trapz (map (\<lambda>Ei. map (band_integrand (params ! 0) (params ! 1) (params ! 4) gs Ei)
                               xdata) grid) grid (length xdata) =
            map (band_sum (params ! 0) (params ! 1) (params ! 4) gs grid) xdata"
    unfolding trapz_closed band_sum_def ..
  have F: "map (\<lambda>v. params ! 3 * sqrt (params ! 1) * v)
             (map2 (+) (map (band_sum (params ! 0) (params ! 1) (params ! 4) gs grid) xdata)
                (map (exciton_sum (params ! 0) (params ! 1) (params ! 5) gs [1..<51]) xdata)) =
           fitted_curve params xdata"
    unfolding map2_add_maps by (simp add: fitted_curve_def curve_scale_def gs_def grid_def)
  have X: "map (\<lambda>v. params ! 3 * sqrt (params ! 1) * v)
             (map (exciton_sum (params ! 0) (params ! 1) (params ! 5) gs [1..<51]) xdata) =
           exciton_curve params xdata"
    by (simp add: exciton_curve_def curve_scale_def gs_def)
  have B: "map (\<lambda>v. params ! 3 * sqrt (params ! 1) * v)
             (map (band_sum (params ! 0) (params ! 1) (params ! 4) gs grid) xdata) =
           band_curve params xdata"
    by (simp add: band_curve_def curve_scale_def gs_def grid_def)
  have "fsum2d params xdata ydata =
        rbind (exciton_loop (params ! 0) (params ! 1) (params ! 5) gs xdata [1..<51]
                 (zeros (length xdata))) (\<lambda>a1.
        rbind (band_rows (params ! 0) (params ! 1) (params ! 4) gs xdata grid) (\<lambda>a2.
        rbind (broadcast_sub (map (\<lambda>v. params ! 3 * sqrt (params ! 1) * v)
                 (map2 (+) (trapz a2 grid (length xdata)) a1)) ydata) (\<lambda>ErrorVector.
        Inr ((if params ! 4 \<le> 0 then 10 * sum_list (map (\<lambda>e. e ^ 2) ErrorVector)
              else sum_list (map (\<lambda>e. e ^ 2) ErrorVector)),
             map (\<lambda>v. params ! 3 * sqrt (params ! 1) * v)
                 (map2 (+) (trapz a2 grid (length xdata)) a1),
             map (\<lambda>v. params ! 3 * sqrt (params ! 1) * v) a1,
             map (\<lambda>v. params ! 3 * sqrt (params ! 1) * v) (trapz a2 grid (length xdata))))))"
    using assms unfolding fsum2d_def Let_def gs_def grid_def by simp
  also have "\<dots> = rbind (broadcast_sub (fitted_curve params xdata) ydata) (\<lambda>ErrorVector.
           Inr ((if params ! 4 \<le> 0 then 10 * sum_list (map (\<lambda>e. e ^ 2) ErrorVector)
                 else sum_list (map (\<lambda>e. e ^ 2) ErrorVector)),
                fitted_curve params xdata, exciton_curve params xdata, band_curve params xdata))"
    unfolding a1 a2 by (simp only: rbind_def sum.case bc F X B)
  finally show ?thesis .
qed

lemma sum_list_skip_zero:
  "f n = 0 \<Longrightarrow> sum_list (map f ns) = sum_list (map f (removeAll n ns))" for f :: "nat \<Rightarrow> real"
  by (induction ns) auto

lemma exciton_sum_integer_q:
  assumes "1 \<le> n" and "n \<le> 50"
  shows "exciton_sum Eg Eb (real n) gs [1..<51] E =
         (\<Sum>i\<in>{1..50} - {n}. 2 * Eb / (real i - real n) ^ 3 *
            sech (clip ((E - (Eg - Eb / (real i - real n) ^ 2)) / gs) (- 700) 700))"
proof -
  let ?line = "\<lambda>i. 2 * Eb / (real i - real n) ^ 3 *
            sech (clip ((E - (Eg - Eb / (real i - real n) ^ 2)) / gs) (- 700) 700)"
  have skip: "exciton_contrib Eg Eb (real n) gs n E = 0"
    using tiny_pos by (simp add: exciton_contrib_def)
  have other: "exciton_contrib Eg Eb (real n) gs i E = ?line i" if "i \<noteq> n" for i
  proof -
    have "1 \<le> \<bar>real i - real n\<bar>" using that by linarith
    moreover have "tiny < 1" by (simp add: tiny_def)
    ultimately have "\<not> \<bar>real i - real n\<bar> < tiny" by linarith
    then show ?thesis by (simp add: exciton_contrib_def sech_def)
  qed
  have "exciton_sum Eg Eb (real n) gs [1..<51] E =
        sum_list (map (\<lambda>i. exciton_contrib Eg Eb (real n) gs i E) (removeAll n [1..<51]))"
    unfolding exciton_sum_def using skip by (rule sum_list_skip_zero)
  also have "\<dots> = sum_list (map ?line (removeAll n [1..<51]))"
    by (rule arg_cong[where f = sum_list], rule map_cong) (auto simp: other)
  also have "\<dots> = sum ?line (set (removeAll n [1..<51]))"
    by (rule sum_list_distinct_conv_sum_set) (simp add: distinct_removeAll)
  also have "set (removeAll n [1..<51]) = {1..50} - {n}" by auto
  finally show ?thesis .
qed

lemma fsum2d_no_zero_division: "fsum2d params xdata ydata \<noteq> Inl ZeroDivisionError"
proof (cases "6 \<le> length params")
  case True
  show ?thesis
    unfolding fsum2d_closed[OF True]
    by (simp add: rbind_def broadcast_sub_def split: sum.splits)
next
  case False
  then show ?thesis by (simp add: fsum2d_def)
qed

subsection \<open>Singular exciton terms and the linewidth floor\<close>

text \<open>
  Claim C9.  When \<open>q\<close> (\<open>params[5]\<close>) equals an integer \<open>n\<close> of \<open>1..50\<close>, the exciton output of
  \<open>fsum2d\<close> is the scaled sum of the other 49 lines only: term \<open>n\<close> contributes nothing.
  No division of the evaluation has a zero divisor, whatever the linewidth: the divisor of
  every lineshape argument is \<open>max |Gamma| 1e-10\<close>, so \<open>Gamma = 0\<close> does not fault, and for
  observations of the length of the axis the call returns.
\<close>

theorem fsum2d_integer_q_skips_term:
  assumes "6 \<le> length params" and "params ! 5 = real n" and "1 \<le> n" and "n \<le> 50"
  shows "fsum2d params xdata ydata \<noteq> Inl ZeroDivisionError \<and>
         (length ydata = length xdata \<longrightarrow>
           (\<exists>sse FittedCurve band.
              fsum2d params xdata ydata =
              Inr (sse, FittedCurve,
                   map (\<lambda>E. params ! 3 * sqrt (params ! 1) *
                         (\<Sum>i\<in>{1..50} - {n}. 2 * params ! 1 / (real i - real n) ^ 3 *
                            sech (clip ((E - (params ! 0 - params ! 1 / (real i - real n) ^ 2)) /
                                        max \<bar>params ! 2\<bar> (1 / 10 ^ 10)) (- 700) 700))) xdata,
                   band)))"
proof (intro conjI impI)
  show "fsum2d params xdata ydata \<noteq> Inl ZeroDivisionError"
    by (rule fsum2d_no_zero_division)
next
  assume len: "length ydata = length xdata"
  have ex: "exciton_curve params xdata =
        map (\<lambda>E. params ! 3 * sqrt (params ! 1) *
                         (\<Sum>i\<in>{1..50} - {n}. 2 * params ! 1 / (real i - real n) ^ 3 *
                            sech (clip ((E - (params ! 0 - params ! 1 / (real i - real n) ^ 2)) /
                                        max \<bar>params ! 2\<bar> (1 / 10 ^ 10)) (- 700) 700))) xdata"
    unfolding exciton_curve_def assms(2) exciton_sum_integer_q[OF assms(3,4)]
    by (simp add: curve_scale_def gamma_safe_def tiny_def)
  have "length (fitted_curve params xdata) = length ydata"
    using len by (simp add: fitted_curve_def)
  then show "\<exists>sse FittedCurve band.
              fsum2d params xdata ydata =
              Inr (sse, FittedCurve,
                   map (\<lambda>E. params ! 3 * sqrt (params ! 1) *
                         (\<Sum>i\<in>{1..50} - {n}. 2 * params ! 1 / (real i - real n) ^ 3 *
                            sech (clip ((E - (params ! 0 - params ! 1 / (real i - real n) ^ 2)) /
                                        max \<bar>params ! 2\<bar> (1 / 10 ^ 10)) (- 700) 700))) xdata,
                   band)"
    unfolding fsum2d_closed[OF assms(1)] ex[symmetric]
    by (simp add: rbind_def broadcast_sub_def)
qed

theorem fsum2d_integer_q_skips_term_witness:
  "fsum2d [1, 1, 0, 1, 1, 2] [1] [1] \<noteq> Inl ZeroDivisionError \<and>
   (\<exists>sse FittedCurve band.
      fsum2d [1, 1, 0, 1, 1, 2] [1] [1] =
      Inr (sse, FittedCurve,
           [1 * sqrt 1 * (\<Sum>i\<in>{1..50} - {2}. 2 * 1 / (real i - real 2) ^ 3 *
               sech (clip ((1 - (1 - 1 / (real i - real 2) ^ 2)) / max \<bar>0\<bar> (1 / 10 ^ 10))
                     (- 700) 700))],
           band))"
  using fsum2d_integer_q_skips_term[of "[1, 1, 0, 1, 1, 2]" 2 "[1]" "[1]"] by simp

subsection \<open>The lineshape\<close>

lemma exp_neg_2pi_small: "exp (- 2 * pi * sqrt 1) < 1 / 2"
proof -
  have "(2::real) \<le> exp 1" using exp_ge_add_one_self[of "1::real"] by simp
  moreover have "exp (1::real) < exp (2 * pi)" using pi_ge_two by simp
  ultimately have "2 < exp (2 * pi)" by linarith
  then have "1 / exp (2 * pi) < 1 / 2" by (simp add: field_simps)
  then show ?thesis by (simp add: exp_minus field_simps)
qed

lemma band_den_1_1: "band_den 1 1 = 1 - exp (- 2 * pi * sqrt 1)"
proof -
  have "tiny < 1 / 2" by (simp add: tiny_def)
  then have "\<not> \<bar>1 - exp (- 2 * pi * sqrt 1)\<bar> < tiny"
    using exp_neg_2pi_small by linarith
  then show ?thesis by (simp add: band_den_def)
qed

lemma sech_ne_square: "x \<noteq> 0 \<Longrightarrow> sech x \<noteq> (sech x)\<^sup>2"
proof
  assume x: "x \<noteq> 0" and e: "sech x = (sech x)\<^sup>2"
  have "sech x \<noteq> 0" by (simp add: sech_def)
  with e have "sech x = 1" by (simp add: power2_eq_square)
  then have "cosh x = 1" by (simp add: sech_def)
  with x show False by simp
qed

text \<open>
  Claim C1, as amended.  Each exciton term that is not skipped is the line centred at
  \<open>Enx = Eg - Eb/(n-q)\<^sup>2\<close> with amplitude \<open>2 Eb/(n-q)\<^sup>3\<close> weighted by \<open>sech\<close>, to the first
  power, of the clamped argument \<open>(E - Enx)/\<Gamma>\<close>; each row of the band grid with \<open>\<Delta>E > 0\<close> is
  weighted by \<open>sech\<close>, to the first power, of the clamped \<open>(E_axis - E_grid)/\<Gamma>\<close> times
  \<open>(1 + 10 m \<Delta>E + 126 m\<^sup>2 \<Delta>E\<^sup>2)\<close> over the floored denominator \<open>band_den\<close>.  Here \<open>\<Gamma>\<close> is the
  floored linewidth \<open>gamma_safe\<close>.
\<close>

theorem fsum2d_lineshape_first_power:
  "(\<not> \<bar>real n - q\<bar> < 1 / 10 ^ 10 \<longrightarrow>
      exciton_term Eg Eb q (gamma_safe gamma) xdata n =
      Inr (map (\<lambda>E. 2 * Eb / (real n - q) ^ 3 *
                     sech (clip ((E - (Eg - Eb / (real n - q) ^ 2)) / gamma_safe gamma)
                           (- 700) 700)) xdata)) \<and>
   (0 < Ei - Eg \<longrightarrow>
      band_row Eg Eb mhcnp (gamma_safe gamma) xdata Ei =
      Inr (map (\<lambda>E. sech (clip ((E - Ei) / gamma_safe gamma) (- 700) 700) *
                     ((1 + (10 * mhcnp * (Ei - Eg) + 126 * mhcnp ^ 2 * (Ei - Eg) ^ 2)) /
                      band_den Eb (Ei - Eg))) xdata))"
proof -
  have gs: "gamma_safe gamma \<noteq> 0" using gamma_safe_pos[of gamma] by simp
  show ?thesis
    using exciton_term_closed[OF gs, where i = n and q = q and Eg = Eg and Eb = Eb and xdata = xdata]
      band_row_closed[OF gs, where Eg = Eg and Ei = Ei and Eb = Eb and mhcnp = mhcnp
        and xdata = xdata]
    by (simp add: sech_def tiny_def)
qed

theorem fsum2d_lineshape_first_power_witness:
  "exciton_term 1 1 0 (gamma_safe 1) [1] 1 =
     Inr [2 * 1 / (real 1 - 0) ^ 3 *
          sech (clip ((1 - (1 - 1 / (real 1 - 0) ^ 2)) / gamma_safe 1) (- 700) 700)] \<and>
   band_row 1 1 1 (gamma_safe 1) [1] 2 =
     Inr [sech (clip ((1 - 2) / gamma_safe 1) (- 700) 700) *
          ((1 + (10 * 1 * (2 - 1) + 126 * 1 ^ 2 * (2 - 1) ^ 2)) / band_den 1 (2 - 1))]"
  using fsum2d_lineshape_first_power[where n = 1 and q = 0 and Eg = 1 and Eb = 1 and gamma = 1
      and xdata = "[1]" and Ei = 2 and mhcnp = 1] by simp

text \<open>
  Claim C1 as stated (the shape factor squared) fails: for \<open>Eg = Eb = \<Gamma> = 1\<close>, \<open>q = 0\<close> at the
  axis point \<open>E = 1\<close>, the term \<open>n = 1\<close> is \<open>2 sech 1\<close>, not \<open>2 sech\<^sup>2 1\<close>, and the row of the
  grid energy \<open>2\<close> (with \<open>m = 1\<close>) carries \<open>sech (-1)\<close>, not its square.
\<close>

theorem fsum2d_sech_squared_counterexample:
  "exciton_term 1 1 0 (gamma_safe 1) [1] 1 \<noteq>
     Inr [2 * 1 / (real 1 - 0) ^ 3 * (sech ((1 - (1 - 1 / (real 1 - 0) ^ 2)) / 1))\<^sup>2] \<and>
   band_row 1 1 1 (gamma_safe 1) [1] 2 \<noteq>
     Inr [(sech ((1 - 2) / 1))\<^sup>2 *
          ((1 + 10 * 1 * (2 - 1) + 126 * 1 ^ 2 * (2 - 1) ^ 2) /
           (1 - exp (- 2 * pi * sqrt (1 / (2 - 1)))))]"
proof -
  have g1: "gamma_safe 1 = 1" by (simp add: gamma_safe_def tiny_def)
  have c1: "clip 1 (- 700) 700 = 1" "clip (- 1) (- 700) 700 = - 1" by (simp_all add: clip_def)
  have t: "\<not> \<bar>real 1 - 0\<bar> < tiny" by (simp add: tiny_def)
  have s1: "sech 1 \<noteq> (sech 1)\<^sup>2" by (rule sech_ne_square) simp
  have s2: "sech (- 1) \<noteq> (sech (- 1))\<^sup>2" by (rule sech_ne_square) simp
  have D: "0 < 1 - exp (- 2 * pi * sqrt 1)" using exp_neg_2pi_small by linarith
  have e: "exciton_term 1 1 0 (gamma_safe 1) [1] 1 = Inr [2 * sech 1]"
    using exciton_term_closed[where gs = 1 and i = 1 and q = 0 and Eg = 1 and Eb = 1
        and xdata = "[1]"] t by (simp add: g1 c1 sech_def)
  have b: "band_row 1 1 1 (gamma_safe 1) [1] 2 =
           Inr [sech (- 1) * (137 / (1 - exp (- 2 * pi * sqrt 1)))]"
    using band_row_closed[where gs = 1 and Eg = 1 and Ei = 2 and Eb = 1 and mhcnp = 1
        and xdata = "[1]"] by (simp add: g1 c1 sech_def band_den_1_1)
  have "2 * sech 1 \<noteq> 2 * (sech 1)\<^sup>2" using s1 by simp
  moreover have "sech (- 1) * (137 / (1 - exp (- 2 * pi * sqrt 1))) \<noteq>
                 (sech (- 1))\<^sup>2 * (137 / (1 - exp (- 2 * pi * sqrt 1)))"
    using s2 D by simp
  ultimately show ?thesis unfolding e b by simp
qed

subsection \<open>The penalty on a non-positive mass parameter\<close>

lemma band_quadratic_pos: "0 < 1 + (10 * m * d + 126 * m\<^sup>2 * d\<^sup>2)" for m d :: real
proof -
  define u where "u = m * d"
  have "1 + (10 * m * d + 126 * m\<^sup>2 * d\<^sup>2) = 101 * u\<^sup>2 + (5 * u + 1)\<^sup>2 "
    by (simp add: u_def power2_eq_square algebra_simps)
  moreover have "0 < 101 * u\<^sup>2 + (5 * u + 1)\<^sup>2"
  proof (cases "u = 0")
    case True then show ?thesis by simp
  next
    case False
    then have "0 < 101 * u\<^sup>2" by simp
    moreover have "0 \<le> (5 * u + 1)\<^sup>2" by simp
    ultimately show ?thesis by (rule add_pos_nonneg)
  qed
  ultimately show ?thesis by simp
qed

lemma band_integrand_nonneg: "0 \<le> band_integrand Eg Eb m gs Ei E"
  using band_quadratic_pos[of m "Ei - Eg"] band_den_pos[of Eb "Ei - Eg"]
  by (simp add: band_integrand_def)

lemma band_integrand_flip_le:
  assumes "m \<le> 0"
  shows "band_integrand Eg Eb m gs Ei E \<le> band_integrand Eg Eb (- m) gs Ei E"
proof (cases "Ei - Eg \<le> 0")
  case True then show ?thesis by (simp add: band_integrand_def)
next
  case False
  then have d: "0 < Ei - Eg" by simp
  have "10 * m * (Ei - Eg) \<le> 10 * (- m) * (Ei - Eg)"
    using assms d by (simp add: mult_nonpos_nonneg)
  then have "(1 + (10 * m * (Ei - Eg) + 126 * m\<^sup>2 * (Ei - Eg)\<^sup>2)) / band_den Eb (Ei - Eg)
          \<le> (1 + (10 * (- m) * (Ei - Eg) + 126 * (- m)\<^sup>2 * (Ei - Eg)\<^sup>2)) / band_den Eb (Ei - Eg)"
    using band_den_pos[of Eb "Ei - Eg"] by (simp add: divide_right_mono)
  moreover have "0 \<le> 1 / cosh (clip ((E - Ei) / gs) (- 700) 700)" by simp
  ultimately have "1 / cosh (clip ((E - Ei) / gs) (- 700) 700) *
      ((1 + (10 * m * (Ei - Eg) + 126 * m\<^sup>2 * (Ei - Eg)\<^sup>2)) / band_den Eb (Ei - Eg))
    \<le> 1 / cosh (clip ((E - Ei) / gs) (- 700) 700) *
      ((1 + (10 * (- m) * (Ei - Eg) + 126 * (- m)\<^sup>2 * (Ei - Eg)\<^sup>2)) / band_den Eb (Ei - Eg))"
    by (rule mult_left_mono)
  then show ?thesis
    unfolding band_integrand_def using False by (simp only: if_False)
qed

lemma band_integrand_flip_less:
  assumes "m < 0" and "0 < Ei - Eg"
  shows "band_integrand Eg Eb m gs Ei E < band_integrand Eg Eb (- m) gs Ei E"
proof -
  have "10 * m * (Ei - Eg) < 10 * (- m) * (Ei - Eg)"
    using assms by (simp add: mult_neg_pos)
  then have "(1 + (10 * m * (Ei - Eg) + 126 * m\<^sup>2 * (Ei - Eg)\<^sup>2)) / band_den Eb (Ei - Eg)
          < (1 + (10 * (- m) * (Ei - Eg) + 126 * (- m)\<^sup>2 * (Ei - Eg)\<^sup>2)) / band_den Eb (Ei - Eg)"
    using band_den_pos[of Eb "Ei - Eg"] by (simp add: divide_strict_right_mono)
  moreover have "0 < 1 / cosh (clip ((E - Ei) / gs) (- 700) 700)" by simp
  ultimately have "1 / cosh (clip ((E - Ei) / gs) (- 700) 700) *
      ((1 + (10 * m * (Ei - Eg) + 126 * m\<^sup>2 * (Ei - Eg)\<^sup>2)) / band_den Eb (Ei - Eg))
    < 1 / cosh (clip ((E - Ei) / gs) (- 700) 700) *
      ((1 + (10 * (- m) * (Ei - Eg) + 126 * (- m)\<^sup>2 * (Ei - Eg)\<^sup>2)) / band_den Eb (Ei - Eg))"
    by (rule mult_strict_left_mono)
  moreover have "\<not> Ei - Eg \<le> 0" using assms(2) by simp
  ultimately show ?thesis
    unfolding band_integrand_def by (simp only: if_False)
qed

lemma linspace_nth:
  "2 \<le> num \<Longrightarrow> i < num \<Longrightarrow>
   linspace start stop num ! i = start + real i * ((stop - start) / real (num - 1))"
  by (simp add: linspace_def)

lemma length_linspace: "length (linspace start stop num) = num"
  by (simp add: linspace_def)

lemma band_sum_flip_less:
  assumes "m < 0" and "0 < Eg" and "xdata \<noteq> []"
  shows "band_sum Eg Eb m gs (linspace Eg (2 * Eg) (10 * length xdata)) E <
         band_sum Eg Eb (- m) gs (linspace Eg (2 * Eg) (10 * length xdata)) E"
proof -
  define N where "N = 10 * length xdata"
  define grid where "grid = linspace Eg (2 * Eg) N"
  have N: "10 \<le> N" using assms(3) by (cases xdata) (simp_all add: N_def)
  have len: "length grid = N" by (simp add: grid_def length_linspace)
  define s where "s = Eg / real (N - 1)"
  have step: "0 < s" using assms(2) N by (simp add: s_def)
  have nth: "grid ! i = Eg + real i * s" if "i < N" for i
    using linspace_nth[of N i Eg "2 * Eg"] that N by (simp add: grid_def s_def)
  have piece: "(grid ! (i + 1) - grid ! i) *
                (band_integrand Eg Eb m gs (grid ! (i + 1)) E +
                 band_integrand Eg Eb m gs (grid ! i) E) / 2
            < (grid ! (i + 1) - grid ! i) *
                (band_integrand Eg Eb (- m) gs (grid ! (i + 1)) E +
                 band_integrand Eg Eb (- m) gs (grid ! i) E) / 2"
    if "i \<in> set [0..<length grid - 1]" for i
  proof -
    have i: "i + 1 < N" using that len by simp
    have d: "0 < grid ! (i + 1) - grid ! i"
      using nth[of "i + 1"] nth[of i] i step by (simp add: algebra_simps)
    have "0 < real (i + 1) * s" using step by simp
    then have up: "0 < grid ! (i + 1) - Eg" using nth[of "i + 1"] i by simp
    have "band_integrand Eg Eb m gs (grid ! (i + 1)) E +
          band_integrand Eg Eb m gs (grid ! i) E
        < band_integrand Eg Eb (- m) gs (grid ! (i + 1)) E +
          band_integrand Eg Eb (- m) gs (grid ! i) E"
      using band_integrand_flip_less[OF assms(1) up, of Eb gs E]
        band_integrand_flip_le[of m Eg Eb gs "grid ! i" E] assms(1) by linarith
    then show ?thesis using d by simp
  qed
  have "[0..<length grid - 1] \<noteq> []" using len N by simp
  then show ?thesis
    unfolding band_sum_def N_def[symmetric] grid_def[symmetric]
    using piece by (intro sum_list_strict_mono) auto
qed

lemma band_sum_nonneg:
  assumes "0 \<le> Eg"
  shows "0 \<le> band_sum Eg Eb m gs (linspace Eg (2 * Eg) N) E"
proof -
  define grid where "grid = linspace Eg (2 * Eg) N"
  have len: "length grid = N" by (simp add: grid_def length_linspace)
  have "0 \<le> (grid ! (i + 1) - grid ! i) *
                (band_integrand Eg Eb m gs (grid ! (i + 1)) E +
                 band_integrand Eg Eb m gs (grid ! i) E) / 2"
    if "i \<in> set [0..<length grid - 1]" for i
  proof -
    have i: "i + 1 < N" "2 \<le> N" using that len by simp_all
    define s where "s = Eg / real (N - 1)"
    have "grid ! (i + 1) = Eg + real (i + 1) * s" "grid ! i = Eg + real i * s"
      using linspace_nth[of N "i + 1" Eg "2 * Eg"] linspace_nth[of N i Eg "2 * Eg"] i
      by (simp_all add: grid_def s_def)
    then have "grid ! (i + 1) - grid ! i = s" by (simp add: algebra_simps)
    moreover have "0 \<le> s" using assms by (simp add: s_def)
    ultimately have "0 \<le> grid ! (i + 1) - grid ! i" by simp
    then show ?thesis
      using band_integrand_nonneg[of Eg Eb m gs "grid ! (i + 1)" E]
        band_integrand_nonneg[of Eg Eb m gs "grid ! i" E] by simp
  qed
  then show ?thesis
    unfolding band_sum_def grid_def[symmetric] by (intro sum_list_nonneg) auto
qed

lemma exciton_sum_nonneg:
  assumes "0 \<le> Eb" and "q < 1" and "\<forall>i\<in>set ns. 1 \<le> i"
  shows "0 \<le> exciton_sum Eg Eb q gs ns E"
proof -
  have "0 \<le> exciton_contrib Eg Eb q gs i E" if "i \<in> set ns" for i
  proof -
    have "0 < real i - q" using that assms(2,3) by force
    then have "0 \<le> 2 * Eb / (real i - q) ^ 3" using assms(1) by simp
    moreover have "0 \<le> 1 / cosh (clip ((E - (Eg - Eb / (real i - q) ^ 2)) / gs) (- 700) 700)"
      by simp
    ultimately have "0 \<le> 2 * Eb / (real i - q) ^ 3 *
        (1 / cosh (clip ((E - (Eg - Eb / (real i - q) ^ 2)) / gs) (- 700) 700))"
      by (rule mult_nonneg_nonneg)
    then show ?thesis unfolding exciton_contrib_def by (simp only: if_split) simp
  qed
  then show ?thesis unfolding exciton_sum_def by (intro sum_list_nonneg) auto
qed

text \<open>
  Claim C2, as amended.  For \<open>mhcnp \<le> 0\<close> the returned sse is exactly 10 times the sum of
  squares of the returned curve minus the observations, the curve being that of the given
  parameter vector itself; for \<open>mhcnp < 0\<close> the sse of the sign-flipped vector is the plain
  sum of squares for that vector's own curve.  (The two curves differ: the band term
  \<open>10 mhcnp \<Delta>E\<close> changes sign with \<open>mhcnp\<close>.)
\<close>

theorem fsum2d_penalty_own_residual:
  assumes "6 \<le> length params" and "params ! 4 \<le> 0" and "length ydata = length xdata"
  shows "(\<exists>F exciton band.
            fsum2d params xdata ydata =
            Inr (10 * sum_list (map2 (\<lambda>f y. (f - y) ^ 2) F ydata), F, exciton, band)) \<and>
         (params ! 4 < 0 \<longrightarrow>
           (\<exists>F exciton band.
              fsum2d (params[4 := - params ! 4]) xdata ydata =
              Inr (sum_list (map2 (\<lambda>f y. (f - y) ^ 2) F ydata), F, exciton, band)))"
proof -
  have len: "length (fitted_curve p xdata) = length ydata" for p
    using assms(3) by (simp add: fitted_curve_def)
  have "fsum2d params xdata ydata =
        Inr (10 * sum_list (map2 (\<lambda>f y. (f - y) ^ 2) (fitted_curve params xdata) ydata),
             fitted_curve params xdata, exciton_curve params xdata, band_curve params xdata)"
    unfolding fsum2d_closed[OF assms(1)] using assms(2) len[of params]
    by (simp add: rbind_def broadcast_sub_def o_def split_def)
  moreover have "fsum2d (params[4 := - params ! 4]) xdata ydata =
        Inr (sum_list (map2 (\<lambda>f y. (f - y) ^ 2)
                         (fitted_curve (params[4 := - params ! 4]) xdata) ydata),
             fitted_curve (params[4 := - params ! 4]) xdata,
             exciton_curve (params[4 := - params ! 4]) xdata,
             band_curve (params[4 := - params ! 4]) xdata)" if "params ! 4 < 0"
  proof -
    have l: "6 \<le> length (params[4 := - params ! 4])" using assms(1) by simp
    have "\<not> params[4 := - params ! 4] ! 4 \<le> 0" using that assms(1) by simp
    then show ?thesis
      unfolding fsum2d_closed[OF l] using len[of "params[4 := - params ! 4]"]
      by (simp add: rbind_def broadcast_sub_def o_def split_def)
  qed
  ultimately show ?thesis by blast
qed

theorem fsum2d_penalty_own_residual_witness:
  "(\<exists>F exciton band.
      fsum2d [1, 1, 1, 1, - 1, 0] [1] [0] =
      Inr (10 * sum_list (map2 (\<lambda>f y. (f - y) ^ 2) F [0]), F, exciton, band)) \<and>
   (\<exists>F exciton band.
      fsum2d [1, 1, 1, 1, 1, 0] [1] [0] =
      Inr (sum_list (map2 (\<lambda>f y. (f - y) ^ 2) F [0]), F, exciton, band))"
  using fsum2d_penalty_own_residual[of "[1, 1, 1, 1, - 1, 0]" "[0]" "[1]"] by simp

text \<open>
  Claim C2 as stated fails at \<open>params = [1, 1, 1, 1, -1, 0]\<close>, \<open>xdata = [1]\<close>,
  \<open>ydata = [0]\<close>: both calls return, and the sse for \<open>mhcnp = -1\<close> is not 10 times the sse
  for \<open>mhcnp = 1\<close>, because the fitted value for \<open>mhcnp = 1\<close> is strictly the larger.
\<close>

theorem fsum2d_penalty_flip_counterexample:
  "\<not> isl (fsum2d [1, 1, 1, 1, - 1, 0] [1] [0]) \<and>
   \<not> isl (fsum2d [1, 1, 1, 1, 1, 0] [1] [0]) \<and>
   fst (projr (fsum2d [1, 1, 1, 1, - 1, 0] [1] [0])) \<noteq>
   10 * fst (projr (fsum2d [1, 1, 1, 1, 1, 0] [1] [0]))"
proof -
  define B where "B m = band_sum 1 1 m (gamma_safe 1) (linspace 1 (2 * 1) (10 * length [1::real])) 1"
    for m :: real
  define A where "A = exciton_sum 1 1 0 (gamma_safe 1) [1..<51] 1"
  have lt: "B (- 1) < B (- (- 1))"
    unfolding B_def by (rule band_sum_flip_less) simp_all
  have B0: "0 \<le> B (- 1)" unfolding B_def by (rule band_sum_nonneg) simp
  have A0: "0 \<le> A" unfolding A_def by (rule exciton_sum_nonneg) simp_all
  have F1: "fitted_curve [1, 1, 1, 1, - 1, 0] [1] = [B (- 1) + A]"
    by (simp add: fitted_curve_def curve_scale_def B_def A_def)
  have F2: "fitted_curve [1, 1, 1, 1, 1, 0] [1] = [B 1 + A]"
    by (simp add: fitted_curve_def curve_scale_def B_def A_def)
  have o1: "fsum2d [1, 1, 1, 1, - 1, 0] [1] [0] =
            Inr (10 * (B (- 1) + A)\<^sup>2, [B (- 1) + A],
                 exciton_curve [1, 1, 1, 1, - 1, 0] [1], band_curve [1, 1, 1, 1, - 1, 0] [1])"
    by (subst fsum2d_closed) (simp_all add: F1 rbind_def broadcast_sub_def)
  have o2: "fsum2d [1, 1, 1, 1, 1, 0] [1] [0] =
            Inr ((B 1 + A)\<^sup>2, [B 1 + A],
                 exciton_curve [1, 1, 1, 1, 1, 0] [1], band_curve [1, 1, 1, 1, 1, 0] [1])"
    by (subst fsum2d_closed) (simp_all add: F2 rbind_def broadcast_sub_def)
  have h: "0 \<le> B (- 1) + A" "B (- 1) + A < B 1 + A" using lt B0 A0 by simp_all
  have "(B (- 1) + A)\<^sup>2 < (B 1 + A)\<^sup>2" by (rule power_strict_mono[OF h(2) h(1)]) simp
  then show ?thesis unfolding o1 o2 by simp
qed

section \<open>Properties of the baseline estimator\<close>

text \<open>
  Claim C3.  The claim asks for the 20 lowest-energy points whatever the orientation.  The
  legacy fallback (lines 106 to 109) takes the first 20 array positions without testing the
  orientation, although its comment says "use lowest energy points" and the two other
  fallbacks of the function do test it.  On a descending axis of 21 points from 3.00 eV
  down to 2.00 eV with \<open>Eg = 2.1\<close> (two points below \<open>Eg\<close>) and no \<open>Eb\<close>, the returned mask
  holds the 20 highest energies and leaves out the lowest one, 2.00 eV.
\<close>

theorem fit_baseline_legacy_fallback_descending:
  "fit_baseline (\<lambda>x y. Inl LibraryError) 2
     [3.00, 2.95, 2.90, 2.85, 2.80, 2.75, 2.70, 2.65, 2.60, 2.55, 2.50,
      2.45, 2.40, 2.35, 2.30, 2.25, 2.20, 2.15, 2.10, 2.05, 2.00]
     [0, 0, 0, 0, 0, 0, 0, 0, 0, 0, 0, 0, 0, 0, 0, 0, 0, 0, 0, 0, 0]
     (Some 2.1) None =
   Inr ([0, 0, 0, 0, 0, 0, 0, 0, 0, 0, 0, 0, 0, 0, 0, 0, 0, 0, 0, 0, 0],
        [True, True, True, True, True, True, True, True, True, True,
         True, True, True, True, True, True, True, True, True, True, False])"
  by (simp add: fit_baseline_def baseline_mask_def count_true_def head_mask_def upt_conv_Cons
      select_def rbind_def fdiv_def tiny_def zeros_def power_divide)

text \<open>
  Claim C4, as amended.  With a mode other than 0, 1 and 2, a mask that was computed and an
  absorption column of the length of the axis, the call raises the "not implemented" error
  exactly when the mask selects at least two points; with fewer than two points the test
  of line 128 returns the zero baseline and the mask first.
\<close>

theorem fit_baseline_unsupported_mode:
  assumes "mode \<noteq> 0" and "mode \<noteq> 1" and "mode \<noteq> 2"
    and "baseline_mask xdata Eg Eb = Inr msk" and "length ydata = length xdata"
  shows "fit_baseline polyfit mode xdata ydata Eg Eb =
         (if 2 \<le> length (select xdata msk) then Inl (FitmodeNotImplemented mode)
          else Inr (zeros (length xdata), msk))"
  using assms by (simp add: fit_baseline_def rbind_def Let_def)


theorem fit_baseline_unsupported_mode_witness:
  "fit_baseline (\<lambda>x y. Inl LibraryError) 3 [1, 2] [0, 0] None None =
   Inl (FitmodeNotImplemented 3)"
proof -
  have m: "baseline_mask [1, 2] None None = Inr [True, True]"
    by (simp add: baseline_mask_def head_mask_def n_points_def upt_conv_Cons)
  show ?thesis
    using fit_baseline_unsupported_mode[of 3 "[1, 2]" None None "[True, True]" "[0, 0]"
        "\<lambda>x y. Inl LibraryError"] m
    by (simp add: select_def)
qed


text \<open>
  Claim C4 as stated fails for a one-point axis in mode 3: the single point is selected,
  and the call returns the zero baseline instead of raising.
\<close>

theorem fit_baseline_unsupported_mode_counterexample:
  "fit_baseline (\<lambda>x y. Inl LibraryError) 3 [1] [1 / 2] None None = Inr ([0], [True])"
  by (simp add: fit_baseline_def baseline_mask_def tail_mask_def n_points_def select_def
      zeros_def rbind_def)

text \<open>
  Claim C5.  In mode 2, with a mask of at least two points, the baseline is \<open>a E\<^sup>4\<close> on the
  whole axis, \<open>a\<close> the quotient of the sum of \<open>y E\<^sup>4\<close> by the sum of \<open>E\<^sup>8\<close> over the masked
  points, when that sum of \<open>E\<^sup>8\<close> is at least \<open>1e-10\<close>; below it the baseline is zero.  The mask
  is returned in both cases.
\<close>

theorem fit_baseline_rayleigh:
  assumes "baseline_mask xdata Eg Eb = Inr msk" and "length ydata = length xdata"
    and "2 \<le> length (select xdata msk)"
  shows "fit_baseline polyfit 2 xdata ydata Eg Eb =
         (if 1 / 10 ^ 10 \<le> sum_list (map (\<lambda>E. E ^ 8) (select xdata msk))
          then Inr (map (\<lambda>E. sum_list (map2 (\<lambda>y E. y * E ^ 4) (select ydata msk) (select xdata msk)) /
                             sum_list (map (\<lambda>E. E ^ 8) (select xdata msk)) * E ^ 4) xdata, msk)
          else Inr (zeros (length xdata), msk))"
proof -
  have z: "zip (select ydata msk) (map (\<lambda>x. x ^ 4) (select xdata msk)) =
           map (\<lambda>(y, E). (y, E ^ 4)) (zip (select ydata msk) (select xdata msk))"
    by (simp add: zip_map2)
  have "1 / 10 ^ 10 \<le> sum_list (map (\<lambda>E. E ^ 8) (select xdata msk)) \<Longrightarrow>
        sum_list (map (\<lambda>E. E ^ 8) (select xdata msk)) \<noteq> 0" by auto
  then show ?thesis
    using assms
    by (simp add: fit_baseline_def rbind_def Let_def fdiv_def tiny_def z o_def split_def not_less)
qed

theorem fit_baseline_rayleigh_witness:
  "fit_baseline (\<lambda>x y. Inl LibraryError) 2 [1, 2] [3, 48] None None =
   Inr ([3, 48], [True, True])"
proof -
  have m: "baseline_mask [1, 2] None None = Inr [True, True]"
    by (simp add: baseline_mask_def head_mask_def n_points_def upt_conv_Cons)
  show ?thesis
    using fit_baseline_rayleigh[of "[1, 2]" None None "[True, True]" "[3, 48]"
        "\<lambda>x y. Inl LibraryError"] m
    by (simp add: select_def)
qed

section \<open>Properties of the Urbach estimator\<close>

text \<open>
  With no energy of the axis below the threshold \<open>|Eb - Eg|\<close> the function returns slope 0,
  intercept 0 and a zero curve of the length of the axis.
\<close>

lemma calculate_urbach_energy_no_crossing:
  assumes "\<forall>i<length xdata. \<not> xdata ! i < \<bar>Eb - Eg\<bar>"
  shows "calculate_urbach_energy polyfit xdata ydata Eb Eg = Inr (0, 0, zeros (length xdata))"
proof -
  from assms have "filter (\<lambda>i. xdata ! i < \<bar>Eb - Eg\<bar>) [0..<length xdata] = []"
    by (simp add: filter_empty_conv)
  then show ?thesis by (simp add: calculate_urbach_energy_def)
qed

text \<open>
  Line 247 clamps the start of the window to \<open>len - 1\<close>, the last index, not to \<open>len\<close>.  So
  once an index is found the slice of lines 253 and 254 is never empty and the test of
  line 250 cannot succeed.
\<close>

lemma urbach_window_nonempty:
  "index < len \<Longrightarrow> min (index + 2) (len - 1) < min (index + 10) len" for index len :: nat
  by auto

text \<open>
  When the first crossing \<open>k\<close> is so near the end that no index \<open>k + 2\<close> exists, the slice is
  the last point of the axis alone, and the fit runs on that one point.
\<close>

lemma slice_last_point:
  "0 < length xs \<Longrightarrow> slice xs (length xs - 1) (length xs) = [xs ! (length xs - 1)]"
proof -
  assume "0 < length xs"
  then have "drop (length xs - 1) xs = [xs ! (length xs - 1)]"
    by (metis Cons_nth_drop_Suc Suc_diff_1 diff_less drop_all le_refl zero_less_one)
  moreover have "length xs - (length xs - 1) = 1" using \<open>0 < length xs\<close> by arith
  ultimately show ?thesis by (simp add: slice_def)
qed

lemma calculate_urbach_energy_crossing_at_end:
  assumes k: "k < length xdata" "xdata ! k < \<bar>Eb - Eg\<bar>" "\<forall>j<k. \<not> xdata ! j < \<bar>Eb - Eg\<bar>"
    and past: "length xdata \<le> k + 2" and len: "length ydata = length xdata"
  shows "calculate_urbach_energy polyfit xdata ydata Eb Eg =
         rbind (polyfit [xdata ! (length xdata - 1)] [ln (ydata ! (length xdata - 1))])
           (\<lambda>(slope, intersect). Inr (slope, intersect, map (\<lambda>x. intersect + slope * x) xdata))"
proof -
  have "[0..<length xdata] = [0..<k] @ [k..<length xdata]"
    using upt_add_eq_append[of 0 k "length xdata - k"] k(1) by simp
  then have "[0..<length xdata] = [0..<k] @ k # [Suc k..<length xdata]"
    using k(1) by (simp add: upt_conv_Cons)
  then have f: "filter (\<lambda>i. xdata ! i < \<bar>Eb - Eg\<bar>) [0..<length xdata] =
             k # filter (\<lambda>i. xdata ! i < \<bar>Eb - Eg\<bar>) [Suc k..<length xdata]"
    using k(2,3) by (simp add: filter_empty_conv)
  have pos: "0 < length xdata" "0 < length ydata" using k(1) len by auto
  have s: "min (Suc (Suc k)) (length xdata - Suc 0) = length xdata - Suc 0"
    using past by arith
  have e: "min (k + 10) (length xdata) = length xdata" using past by arith
  have ne: "\<not> length xdata \<le> length xdata - 1" using pos(1) by arith
  show ?thesis
    unfolding calculate_urbach_energy_def Let_def f
    using ne slice_last_point[OF pos(1)] slice_last_point[OF pos(2)]
    by (simp add: s e len)
qed

text \<open>
  Claim C7.  The threshold is \<open>|Eb - Eg|\<close>; the function is to return slope 0, intercept 0
  and a zero curve, without raising, when no energy is below the threshold and when the
  window of 8 points that starts 2 indices after the first crossing holds no point of the
  axis.  The first case is lemma \<open>calculate_urbach_energy_no_crossing\<close>.  The second fails
  in the code.  On the axis \<open>[3, 2, 1]\<close> with \<open>Eb = 0.5\<close> and \<open>Eg = 2\<close> the threshold is 1.5 and
  the first crossing is the last index, 2; indices 4 to 11 do not exist, yet
  \<open>start_idx = min(4, 2) = 2\<close> and \<open>end_idx = min(12, 3) = 3\<close>, the test
  \<open>end_idx <= start_idx\<close> is false, and the result is what \<open>polyfit\<close> makes of the single
  point \<open>(1, ln 2)\<close>, the crossing point itself, not the fallback.
\<close>

theorem calculate_urbach_energy_window_past_end:
  "calculate_urbach_energy polyfit [3, 2, 1] [1, 1, 2] (1 / 2) 2 =
   rbind (polyfit [1] [ln 2])
     (\<lambda>(slope, intersect).
        Inr (slope, intersect, [intersect + slope * 3, intersect + slope * 2, intersect + slope * 1]))"
  by (simp add: calculate_urbach_energy_def slice_def upt_conv_Cons Let_def)

section \<open>Properties of the pipeline\<close>

subsection \<open>Results of the stages\<close>

lemma rbind_Inr_iff: "rbind m f = Inr y \<longleftrightarrow> (\<exists>x. m = Inr x \<and> f x = Inr y)"
  by (cases m) (simp_all add: rbind_def)

lemma rbind_Inr [simp]: "rbind (Inr x) f = f x"
  by (simp add: rbind_def)

lemma rbind_Inl [simp]: "rbind (Inl e) f = Inl e"
  by (simp add: rbind_def)

lemma fit_data_sse:
  assumes "fit_data minimize self x_fit y_fit start bounds = Inr (est, sse, F, e, b)"
  shows "fsum2d est x_fit y_fit = Inr (sse, F, e, b)"
  using assms by (auto simp: fit_data_def Let_def rbind_Inr_iff)

lemma fit_masked_sse:
  assumes "fit_masked minimize self xdata ydata msk start bounds = Inr (est, sse, F, e, b)"
  shows "fsum2d est (select xdata msk) (select ydata msk) = Inr (sse, F, e, b)"
  using assms
  by (auto simp: fit_masked_def bselect_def rbind_Inr_iff split: if_splits dest: fit_data_sse)

lemma final_fit_Inr:
  assumes "final_fit minimize self xdata ydata min_energy max_energy prelim bounds =
           Inr (est, sse, msk)"
  shows "msk = final_fit_mask xdata min_energy max_energy \<and>
         (\<exists>F e b. fsum2d est (select xdata msk) (select ydata msk) = Inr (sse, F, e, b))"
  using assms
  by (auto simp: final_fit_def Let_def rbind_Inr_iff dest: fit_masked_sse)

lemma auto_range_refit_Inr:
  assumes "auto_range_refit minimize self xdata ydata min_energy max_energy auto_range bounds
             (est6, sse6, msk6) = Inr (est, sse, msk)"
  shows "if auto_range \<noteq> Some False \<and>
            10 < count_true (auto_mask xdata (est6 ! 0) min_energy max_energy)
         then msk = auto_mask xdata (est6 ! 0) min_energy max_energy \<and>
              (\<exists>F e b. fsum2d est (select xdata msk) (select ydata msk) = Inr (sse, F, e, b))
         else msk = msk6 \<and> est = est6 \<and> sse = sse6"
  using assms
  by (auto simp: auto_range_refit_def Let_def rbind_Inr_iff split: if_splits
      dest: fit_masked_sse)

lemma fit_stages_Inr:
  assumes "fit_stages minimize polyfit self xdata rawcol min_energy max_energy auto_range =
           Inr (est, sse, msk, baseline, bmsk, ydata)"
  shows "\<exists>prelim bounds est6 sse6 msk6.
           final_fit minimize self xdata ydata min_energy max_energy prelim bounds =
             Inr (est6, sse6, msk6) \<and>
           auto_range_refit minimize self xdata ydata min_energy max_energy auto_range bounds
             (est6, sse6, msk6) = Inr (est, sse, msk)"
  using assms unfolding fit_stages_def
  by (auto simp: rbind_Inr_iff) blast

lemma ss_tot_nonneg: "0 \<le> ss_tot ys"
  unfolding ss_tot_def by (rule sum_list_nonneg) auto

lemma r_squared_total:
  "r_squared sse ys = Inr (if ss_tot ys = 0 then 0 else 1 - sse / ss_tot ys)"
  using ss_tot_nonneg[of ys] by (auto simp: r_squared_def fdiv_def)

lemma report_Inr:
  assumes "report polyfit xdata (est, sse, msk, baseline, bmsk, ydata) = Inr res"
  shows "fitresult res = est \<and> fit_masks res = msk \<and> cleandata res = ydata \<and>
         fittedbaseline res = baseline \<and> baseline_masks res = bmsk \<and>
         r_squared sse (select ydata msk) = Inr (quality res)"
  using assms unfolding report_def
  by (auto simp: rbind_Inr_iff bselect_def split: if_splits)

lemma length_fitted_curve [simp]: "length (fitted_curve p xdata) = length xdata"
  by (simp add: fitted_curve_def)

lemma fsum2d_equal_lengths:
  assumes "6 \<le> length params" and "length ydata = length xdata"
  shows "fsum2d params xdata ydata =
         Inr ((if params ! 4 \<le> 0 then 10 else 1) *
                sum_list (map2 (\<lambda>f y. (f - y) ^ 2) (fitted_curve params xdata) ydata),
              fitted_curve params xdata, exciton_curve params xdata, band_curve params xdata)"
  unfolding fsum2d_closed[OF assms(1)] using assms(2)
  by (simp add: broadcast_sub_def o_def split_def)

lemma fsum2d_Inr_length: "fsum2d params xdata ydata = Inr r \<Longrightarrow> 6 \<le> length params"
  by (cases "length params < 6") (simp_all add: fsum2d_def)

lemma report_fitresult:
  assumes "report polyfit xdata st = Inr res"
  shows "fitresult res = fst st \<and> 6 \<le> length (fst st)"
proof -
  obtain est sse msk baseline bmsk ydata where
    st: "st = (est, sse, msk, baseline, bmsk, ydata)" by (cases st) auto
  from assms obtain r where "fsum2d est xdata ydata = Inr r"
    unfolding st report_def by (auto simp: rbind_Inr_iff)
  then have "6 \<le> length est" by (rule fsum2d_Inr_length)
  then show ?thesis using report_Inr[OF assms[unfolded st]] st by simp
qed

lemma process_dataset_frame:
  assumes "process_dataset minimize polyfit self xdata rawcol min_energy max_energy auto_range =
           (self', out)"
  shows "deltaE self' = deltaE self \<and> NS self' = NS self \<and> fitmode self' = fitmode self \<and>
         lb self' = lb self \<and> rb self' = rb self"
  using assms by (auto simp: process_dataset_def split: sum.splits)

lemma process_dataset_start_point:
  assumes "process_dataset minimize polyfit self xdata rawcol min_energy max_energy auto_range =
           (self', Inr res)"
  shows "start_point self' = fitresult res \<and> 6 \<le> length (fitresult res)"
  using assms by (auto simp: process_dataset_def split: sum.splits dest: report_fitresult)

lemma process_columns_frame:
  assumes "process_columns minimize polyfit xdata T0 min_energy max_energy auto_range self cols acc =
           (self', out)"
  shows "deltaE self' = deltaE self \<and> NS self' = NS self \<and> fitmode self' = fitmode self \<and>
         lb self' = lb self \<and> rb self' = rb self"
  using assms
proof (induction minimize polyfit xdata T0 min_energy max_energy auto_range self cols acc
    rule: process_columns.induct)
  case (1 minimize polyfit xdata T0 min_energy max_energy auto_range self acc)
  then show ?case by simp
next
  case (2 minimize polyfit xdata T0 min_energy max_energy auto_range self i rawcol rest acc)
  show ?case
  proof (cases "int i - 1 \<notin> set T0")
    case True
    then show ?thesis using 2 by simp
  next
    case False
    obtain s1 o1 where pd:
      "process_dataset minimize polyfit self xdata rawcol min_energy max_energy auto_range = (s1, o1)"
      by (cases "process_dataset minimize polyfit self xdata rawcol min_energy max_energy auto_range")
    note fr = process_dataset_frame[OF pd]
    show ?thesis
    proof (cases o1)
      case (Inl e)
      then show ?thesis using False pd fr "2.prems" by simp
    next
      case (Inr r)
      then have "process_columns minimize polyfit xdata T0 min_energy max_energy auto_range s1
                   rest (acc @ [(i, r)]) = (self', out)"
        using False pd "2.prems" by simp
      from "2.IH"(2)[OF _ pd[symmetric] _ this] False Inr fr show ?thesis by simp
    qed
  qed
qed

lemma process_columns_start_point:
  assumes "process_columns minimize polyfit xdata T0 min_energy max_energy auto_range self cols acc =
           (self', Inr results)"
  shows "\<exists>new. results = acc @ new \<and>
           (if new = [] then start_point self' = start_point self
            else start_point self' = fitresult (snd (last new)) \<and>
                 6 \<le> length (fitresult (snd (last new))))"
  using assms
proof (induction minimize polyfit xdata T0 min_energy max_energy auto_range self cols acc
    rule: process_columns.induct)
  case (1 minimize polyfit xdata T0 min_energy max_energy auto_range self acc)
  then show ?case by simp
next
  case (2 minimize polyfit xdata T0 min_energy max_energy auto_range self i rawcol rest acc)
  show ?case
  proof (cases "int i - 1 \<notin> set T0")
    case True
    then show ?thesis using 2 by simp
  next
    case False
    obtain s1 o1 where pd:
      "process_dataset minimize polyfit self xdata rawcol min_energy max_energy auto_range = (s1, o1)"
      by (cases "process_dataset minimize polyfit self xdata rawcol min_energy max_energy auto_range")
    show ?thesis
    proof (cases o1)
      case (Inl e)
      then show ?thesis using False pd "2.prems" by simp
    next
      case (Inr r)
      then have rec: "process_columns minimize polyfit xdata T0 min_energy max_energy auto_range s1
                   rest (acc @ [(i, r)]) = (self', Inr results)"
        using False pd "2.prems" by simp
      from "2.IH"(2)[OF _ pd[symmetric] _ rec] False Inr
      obtain new where new: "results = (acc @ [(i, r)]) @ new"
        "if new = [] then start_point self' = start_point s1
         else start_point self' = fitresult (snd (last new)) \<and>
              6 \<le> length (fitresult (snd (last new)))" by auto
      from process_dataset_start_point[OF pd[unfolded Inr]]
      have s1: "start_point s1 = fitresult r" "6 \<le> length (fitresult r)" by simp_all
      show ?thesis
        using new s1 by (intro exI[of _ "(i, r) # new"]) (auto split: if_splits)
    qed
  qed
qed

lemmas stage_defs =
  fit_stages_def bandgap_detection_def initial_baseline_def init_fitter_def
  detect_initial_Eg_def dynamic_start_point_def dynamic_bounds_def prelim_mask_def
  percentile_def fit_masked_def bselect_def select_def fit_data_def final_fit_def
  final_fit_mask_def restrict_mask_def count_true_def auto_range_refit_def auto_mask_def
  zeros_def broadcast_sub_def objective_function_def Let_def upt_conv_Cons

lemmas report_defs =
  report_def bselect_def select_def r_squared_total calculate_urbach_energy_def slice_def
  zeros_def Let_def upt_conv_Cons

subsection \<open>Bandgap detection\<close>

lemma find_upt_Some:
  "find P [0..<n] = Some k \<longleftrightarrow> k < n \<and> P k \<and> (\<forall>j<k. \<not> P j)"
  by (auto simp: find_Some_iff)

lemma find_rev_upt_Some:
  "find P (rev [0..<n]) = Some k \<longleftrightarrow> k < n \<and> P k \<and> (\<forall>j. k < j \<and> j < n \<longrightarrow> \<not> P j)"
proof (induction n)
  case 0
  then show ?case by simp
next
  case (Suc n)
  show ?case
  proof (cases "P n")
    case True
    then show ?thesis by (auto simp: not_less_eq less_Suc_eq)
  next
    case False
    then show ?thesis using Suc by (auto simp: less_Suc_eq)
  qed
qed

lemma detect_initial_Eg_sorted:
  assumes ne: "xdata \<noteq> []" and len: "length cleaned = length xdata"
    and srt: "sorted xdata \<or> sorted (rev xdata)"
    and Q: "\<forall>i<length xdata. (cleaned ! i > 0.01) = Q i"
  shows "detect_initial_Eg xdata cleaned =
         Inr (if \<exists>i<length xdata. Q i
              then Min {xdata ! i | i. i < length xdata \<and> Q i}
              else median xdata)"
proof -
  define n where "n = length xdata"
  define P where "P = (\<lambda>idx. cleaned ! idx > 0.01)"
  define order where "order = (if hd xdata < last xdata then [0..<n] else rev [0..<n])"
  have n0: "0 < n" using ne by (simp add: n_def)
  have hd0: "hd xdata = xdata ! 0" using ne by (simp add: hd_conv_nth)
  have lastn: "last xdata = xdata ! (n - 1)" using ne by (simp add: last_conv_nth n_def)
  have PQ: "P i = Q i" if "i < n" for i using Q that by (simp add: P_def n_def)
  have det: "detect_initial_Eg xdata cleaned =
             (case find P order of
                Some idx \<Rightarrow> (if idx < n then Inr (xdata ! idx) else Inl IndexError)
              | None \<Rightarrow> Inr (median xdata))"
    unfolding detect_initial_Eg_def order_def P_def n_def Let_def using ne len by simp
  have set_order: "set order = {0..<n}" by (simp add: order_def)
  show ?thesis
  proof (cases "\<exists>i<n. Q i")
    case False
    then have "\<not> (\<exists>x\<in>set order. P x)" using PQ by (auto simp: set_order)
    then have "find P order = None" by (simp add: find_None_iff)
    then show ?thesis using False det by (auto simp: n_def)
  next
    case True
    define S where "S = {xdata ! i | i. i < n \<and> Q i}"
    have fin: "finite S" by (simp add: S_def)
    have key: "\<exists>k<n. find P order = Some k \<and> Q k \<and> (\<forall>i<n. Q i \<longrightarrow> xdata ! k \<le> xdata ! i)"
    proof (cases "hd xdata < last xdata")
      case asc: True
      have "\<not> sorted (rev xdata)"
      proof
        assume "sorted (rev xdata)"
        then have "xdata ! (n - 1) \<le> xdata ! 0"
          using sorted_rev_nth_mono[of xdata 0 "n - 1"] n0 by (simp add: n_def)
        then show False using asc hd0 lastn by simp
      qed
      then have s: "sorted xdata" using srt by blast
      define k where "k = (LEAST i. i < n \<and> Q i)"
      have kP: "k < n \<and> Q k" unfolding k_def using True by (rule LeastI_ex)
      have kmin: "\<not> (j < n \<and> Q j)" if "j < k" for j
        using that not_less_Least[of j "\<lambda>i. i < n \<and> Q i"] by (simp add: k_def)
      have "\<forall>j<k. \<not> P j"
      proof (intro allI impI)
        fix j assume "j < k"
        then show "\<not> P j" using kmin[of j] PQ[of j] kP by simp
      qed
      then have "find P [0..<n] = Some k"
        unfolding find_upt_Some using kP PQ[of k] by simp
      then have "find P order = Some k" using asc by (simp add: order_def)
      moreover have "xdata ! k \<le> xdata ! i" if "i < n" "Q i" for i
      proof -
        have "k \<le> i" using kmin[of i] that by (cases "i < k") auto
        then show ?thesis using sorted_nth_mono[OF s, of k i] that(1) by (simp add: n_def)
      qed
      ultimately show ?thesis using kP by blast
    next
      case desc: False
      define k where "k = (GREATEST i. i < n \<and> Q i)"
      have bnd: "y \<le> n" if "y < n \<and> Q y" for y using that by simp
      from True obtain i0 where i0: "i0 < n \<and> Q i0" by blast
      have kP: "k < n \<and> Q k"
        unfolding k_def by (rule GreatestI_nat[where P = "\<lambda>i. i < n \<and> Q i", OF i0 bnd])
      have kmax: "j \<le> k" if "j < n" "Q j" for j
      proof -
        have "j < n \<and> Q j" using that by simp
        then show ?thesis
          unfolding k_def by (rule Greatest_le_nat[where P = "\<lambda>i. i < n \<and> Q i", OF _ bnd])
      qed
      have "\<forall>j. k < j \<and> j < n \<longrightarrow> \<not> P j"
      proof (intro allI impI)
        fix j assume "k < j \<and> j < n"
        then show "\<not> P j" using kmax[of j] PQ[of j] by auto
      qed
      then have "find P (rev [0..<n]) = Some k"
        unfolding find_rev_upt_Some using kP PQ[of k] by simp
      then have "find P order = Some k" using desc by (simp add: order_def)
      moreover have "xdata ! k \<le> xdata ! i" if "i < n" "Q i" for i
      proof -
        have ik: "i \<le> k" using kmax that by simp
        show ?thesis
        proof (cases "sorted (rev xdata)")
          case True
          then show ?thesis using sorted_rev_nth_mono[of xdata i k] ik kP by (simp add: n_def)
        next
          case False
          then have s: "sorted xdata" using srt by blast
          have "k \<le> n - 1" "n - 1 < length xdata" using kP n0 by (auto simp: n_def)
          then have "xdata ! k \<le> xdata ! (n - 1)"
            using s by (rule sorted_nth_mono[rotated])
          moreover have "xdata ! (n - 1) \<le> xdata ! 0" using desc hd0 lastn by simp
          moreover have "xdata ! 0 \<le> xdata ! i"
            using sorted_nth_mono[OF s, of 0 i] that(1) by (simp add: n_def)
          ultimately show ?thesis by linarith
        qed
      qed
      ultimately show ?thesis using kP by blast
    qed
    then obtain k where k: "k < n" "find P order = Some k" "Q k"
      "\<forall>i<n. Q i \<longrightarrow> xdata ! k \<le> xdata ! i" by blast
    have "Min S = xdata ! k"
    proof (rule Min_eqI[OF fin])
      show "xdata ! k \<in> S" using k(1,3) by (auto simp: S_def)
    next
      fix y assume "y \<in> S"
      then show "xdata ! k \<le> y" using k(4) by (auto simp: S_def)
    qed
    then show ?thesis using True det k(1,2) by (auto simp: S_def n_def)
  qed
qed

lemma fit_baseline_length:
  assumes "fit_baseline polyfit mode xdata ydata Eg Eb = Inr (bl, m)"
  shows "length bl = length xdata"
  using assms
  by (auto simp: fit_baseline_def rbind_Inr_iff Let_def zeros_def split: if_splits)

lemma initial_baseline_length:
  assumes "initial_baseline polyfit self xdata rawcol = Inr (bl, m)"
  shows "length bl = length xdata \<and> (fitmode self = 0 \<longrightarrow> bl = zeros (length xdata))"
  using assms
  by (auto simp: initial_baseline_def zeros_def split: if_splits dest: fit_baseline_length)

text \<open>
  Claim C6.  On an axis sorted in either direction, with the initial baseline \<open>bl\<close> of
  step 0 (zero in mode 0), the detection step returns the lowest energy among the points
  where raw minus \<open>bl\<close> exceeds 0.01, which is the energy of the first such point met from
  the low-energy end, and the median of the axis when no point exceeds 0.01.
\<close>

theorem process_file_bandgap_detection:
  assumes "initial_baseline polyfit self xdata rawcol = Inr (bl, m)"
    and "length rawcol = length xdata" and "xdata \<noteq> []"
    and "sorted xdata \<or> sorted (rev xdata)"
  shows "bandgap_detection polyfit self xdata rawcol =
         Inr (if \<exists>i<length xdata. rawcol ! i - bl ! i > 0.01
              then Min {xdata ! i | i. i < length xdata \<and> rawcol ! i - bl ! i > 0.01}
              else median xdata,
              bl)"
proof -
  note bl = initial_baseline_length[OF assms(1)]
  define cleaned where "cleaned = (if fitmode self = 0 then rawcol else map2 (-) rawcol bl)"
  have c: "(if fitmode self = 0 then Inr rawcol else broadcast_sub rawcol bl) = Inr cleaned"
    using bl assms(2) by (simp add: cleaned_def broadcast_sub_def)
  have len: "length cleaned = length xdata" using bl assms(2) by (simp add: cleaned_def)
  have Q: "\<forall>i<length xdata. (cleaned ! i > 0.01) = (rawcol ! i - bl ! i > 0.01)"
    using bl assms(2) by (auto simp: cleaned_def zeros_def)
  show ?thesis
    unfolding bandgap_detection_def assms(1)
    using c detect_initial_Eg_sorted[OF assms(3) len assms(4) Q] by simp
qed

text \<open>
  A descending axis in mode 2: the Rayleigh baseline of the three points is
  \<open>(89 / 6818) E\<^sup>4\<close>, only the middle point exceeds it by more than 0.01, and the scan
  from the last index returns its energy, 2.
\<close>

theorem process_file_bandgap_detection_witness:
  "bandgap_detection (\<lambda>x y. Inr (0, 0)) (init_fitter 0.2 20 2) [3, 2, 1] [1, 1 / 2, 0] =
     Inr (2, [7209 / 6818, 712 / 3409, 89 / 6818]) \<and>
   Min {[3, 2, 1] ! i | i. i < length [3, 2, 1 :: real] \<and>
          [1, 1 / 2, 0] ! i - [7209 / 6818, 712 / 3409, 89 / 6818] ! i > (0.01 :: real)} =
     (2 :: real)"
proof -
  let ?P = "\<lambda>x y. Inr (0, 0) :: error + real \<times> real"
  let ?bl = "[7209 / 6818, 712 / 3409, 89 / 6818] :: real list"
  have ib: "initial_baseline ?P (init_fitter 0.2 20 2) [3, 2, 1] [1, 1 / 2, 0] =
            Inr (?bl, [True, True, True])"
    by (simp add: initial_baseline_def init_fitter_def fit_baseline_def baseline_mask_def
        tail_mask_def n_points_def select_def fdiv_def tiny_def Let_def upt_conv_Cons)
  have ex: "\<exists>i<length [3, 2, 1 :: real]. [1, 1 / 2, 0] ! i - ?bl ! i > (0.01 :: real)"
    by (rule exI[of _ 1]) simp
  have direct: "bandgap_detection ?P (init_fitter 0.2 20 2) [3, 2, 1] [1, 1 / 2, 0] =
                Inr (2, ?bl)"
    unfolding bandgap_detection_def ib
    by (simp add: init_fitter_def broadcast_sub_def detect_initial_Eg_def upt_conv_Cons)
  have "sorted [3, 2, 1 :: real] \<or> sorted (rev [3, 2, 1 :: real])" by simp
  from process_file_bandgap_detection[OF ib _ _ this]
  have "bandgap_detection ?P (init_fitter 0.2 20 2) [3, 2, 1] [1, 1 / 2, 0] =
        Inr (Min {[3, 2, 1] ! i | i. i < length [3, 2, 1 :: real] \<and>
                    [1, 1 / 2, 0] ! i - ?bl ! i > (0.01 :: real)}, ?bl)"
    unfolding if_P[OF ex] by simp
  with direct show ?thesis by simp
qed

subsection \<open>The reported quality\<close>

text \<open>
  Claim C8.  For a dataset that \<open>process_file\<close> completes, the final fit of step 6 ran on
  the final-fit mask and gave \<open>est6\<close>; the reported mask is the auto-range mask around
  \<open>est6[0]\<close> when the refit ran (auto-range not disabled and more than 10 points in that
  mask) and the final-fit mask otherwise; \<open>sse\<close> is the sse of \<open>fsum2d\<close> for the reported
  parameters on the reported mask; and the quality is \<open>1 - sse / SStot\<close> for the total sum
  of squares of the cleaned data on that mask, or 0 when \<open>SStot = 0\<close>.  The checked
  computation \<open>r_squared\<close> returns that value, so no division faults.
\<close>

theorem process_file_quality:
  assumes "process_dataset minimize polyfit self xdata rawcol min_energy max_energy auto_range =
           (self', Inr res)"
  shows "\<exists>prelim bounds est6 sse6 sse.
           final_fit minimize self xdata (cleandata res) min_energy max_energy prelim bounds =
             Inr (est6, sse6, final_fit_mask xdata min_energy max_energy) \<and>
           (if auto_range \<noteq> Some False \<and>
               10 < count_true (auto_mask xdata (est6 ! 0) min_energy max_energy)
            then fit_masks res = auto_mask xdata (est6 ! 0) min_energy max_energy
            else fit_masks res = final_fit_mask xdata min_energy max_energy \<and>
                 fitresult res = est6 \<and> sse = sse6) \<and>
           (\<exists>F e b. fsum2d (fitresult res) (select xdata (fit_masks res))
                      (select (cleandata res) (fit_masks res)) = Inr (sse, F, e, b)) \<and>
           r_squared sse (select (cleandata res) (fit_masks res)) = Inr (quality res) \<and>
           quality res =
             (if ss_tot (select (cleandata res) (fit_masks res)) = 0 then 0
              else 1 - sse / ss_tot (select (cleandata res) (fit_masks res)))"
proof -
  from assms obtain st where st:
    "fit_stages minimize polyfit self xdata rawcol min_energy max_energy auto_range = Inr st"
    "report polyfit xdata st = Inr res"
    by (auto simp: process_dataset_def split: sum.splits)
  obtain est sse msk baseline bmsk ydata where
    st_eq: "st = (est, sse, msk, baseline, bmsk, ydata)" by (cases st) auto
  from report_Inr[OF st(2)[unfolded st_eq]]
  have r: "fitresult res = est" "fit_masks res = msk" "cleandata res = ydata"
    "r_squared sse (select ydata msk) = Inr (quality res)" by simp_all
  from fit_stages_Inr[OF st(1)[unfolded st_eq]]
  obtain prelim bounds est6 sse6 msk6 where
    ff: "final_fit minimize self xdata ydata min_energy max_energy prelim bounds =
           Inr (est6, sse6, msk6)"
    and ar: "auto_range_refit minimize self xdata ydata min_energy max_energy auto_range bounds
               (est6, sse6, msk6) = Inr (est, sse, msk)"
    by blast
  from final_fit_Inr[OF ff] obtain F6 e6 b6 where
    m6: "msk6 = final_fit_mask xdata min_energy max_energy"
    and f6: "fsum2d est6 (select xdata msk6) (select ydata msk6) = Inr (sse6, F6, e6, b6)"
    by blast
  note a = auto_range_refit_Inr[OF ar]
  have fs: "\<exists>F e b. fsum2d est (select xdata msk) (select ydata msk) = Inr (sse, F, e, b)"
    using a f6 by (auto split: if_splits)
  have q: "quality res = (if ss_tot (select ydata msk) = 0 then 0
                          else 1 - sse / ss_tot (select ydata msk))"
    using r(4) by (simp add: r_squared_total)
  show ?thesis
    apply (rule exI[of _ prelim], rule exI[of _ bounds], rule exI[of _ est6],
        rule exI[of _ sse6], rule exI[of _ sse])
    using ff a fs q r m6 by (auto split: if_splits)
qed

text \<open>
  On the worked example the optimizer is replaced by the function that returns its start
  point.  The window of half an eV around the detected bandgap 1.5 holds eleven points, so
  the refit runs, the reported mask is the auto-range mask, and \<open>SStot\<close> on it is 2.5.
\<close>

theorem process_file_quality_witness:
  "\<exists>sse F e b.
     fsum2d [1.5, 0.050, 0.043, 37, 0.060, 0]
       (select example_axis (auto_mask example_axis 1.5 None None))
       (select example_column (auto_mask example_axis 1.5 None None)) = Inr (sse, F, e, b) \<and>
     fit_masks (projr (snd (process_dataset (\<lambda>obj x0 lo hi. Inr x0) (\<lambda>x y. Inr (0, 0))
        (init_fitter 0.2 20 0) example_axis example_column None None None))) =
       auto_mask example_axis 1.5 None None \<and>
     quality (projr (snd (process_dataset (\<lambda>obj x0 lo hi. Inr x0) (\<lambda>x y. Inr (0, 0))
        (init_fitter 0.2 20 0) example_axis example_column None None None))) =
       1 - sse / 2.5"
proof -
  let ?M = "\<lambda>obj x0 lo hi. Inr x0 :: error + real list"
  let ?P = "\<lambda>x y. Inr (0, 0) :: error + real \<times> real"
  let ?p = "[1.5, 0.050, 0.043, 37, 0.060, 0] :: real list"
  let ?m = "[True, True, True, True, True, True, True, True, True, True, True, False]"
  let ?st = "(?p,
     sum_list (map2 (\<lambda>f y. (f - y) ^ 2)
       (fitted_curve ?p [1.0, 1.1, 1.2, 1.3, 1.4, 1.5, 1.6, 1.7, 1.8, 1.9, 2.0])
       [0, 0, 0, 0, 0, 0.5, 1, 1, 1, 1, 1]),
     ?m, [0, 0, 0, 0, 0, 0, 0, 0, 0, 0, 0, 0],
     [False, False, False, False, False, False, False, False, False, False, False, False],
     example_column)"
  have am: "auto_mask example_axis 1.5 None None = ?m"
    by (simp add: auto_mask_def restrict_mask_def example_axis_def)
  have st: "fit_stages ?M ?P (init_fitter 0.2 20 0) example_axis example_column None None None =
            Inr ?st"
    by (simp add: stage_defs fsum2d_equal_lengths example_axis_def example_column_def)
  have "\<exists>r. report ?P example_axis ?st = Inr r"
    by (simp add: report_defs fsum2d_equal_lengths example_axis_def example_column_def)
  then obtain r where r: "report ?P example_axis ?st = Inr r" by blast
  have pd: "process_dataset ?M ?P (init_fitter 0.2 20 0) example_axis example_column
              None None None = ((init_fitter 0.2 20 0)\<lparr>start_point := ?p\<rparr>, Inr r)"
    unfolding process_dataset_def st sum.case fst_conv r by (rule refl)
  from report_Inr[OF r] have f: "fitresult r = ?p" "fit_masks r = ?m"
    "cleandata r = example_column" by simp_all
  have ss: "ss_tot (select example_column ?m) = 2.5"
    by (simp add: ss_tot_def mean_def select_def example_column_def power2_eq_square)
  from process_file_quality[OF pd] obtain sse F e b where
    "fsum2d ?p (select example_axis ?m) (select example_column ?m) = Inr (sse, F, e, b)"
    "quality r = 1 - sse / 2.5"
    unfolding f ss by auto
  then show ?thesis unfolding pd am using f(2) by auto
qed

subsection \<open>The warm start\<close>

text \<open>
  Claim C10.  \<open>process_file\<close> leaves \<open>deltaE\<close>, \<open>NS\<close>, \<open>fitmode\<close>, \<open>lb\<close> and \<open>rb\<close> as they
  were, whatever the outcome.  When it returns with at least one dataset processed, the
  start point is the parameter vector of the last dataset, so the start of the next fit
  on this instance is that vector with entries 0, 1 and 5 overwritten, not the default of
  the constructor; with no dataset processed the start point is unchanged.
\<close>

theorem process_file_mutates_start_point_only:
  assumes "process_file minimize polyfit self xdata columns T min_energy max_energy auto_range =
           (self', out)"
  shows "deltaE self' = deltaE self \<and> NS self' = NS self \<and> fitmode self' = fitmode self \<and>
         lb self' = lb self \<and> rb self' = rb self \<and>
         (\<forall>results. out = Inr results \<longrightarrow>
            (if results = [] then start_point self' = start_point self
             else start_point self' = fitresult (snd (last results)) \<and>
                  (\<forall>Eg. dynamic_start_point self' Eg =
                        Inr ((fitresult (snd (last results)))[0 := Eg, 1 := 0.050, 5 := 0]))))"
proof -
  define T0 where "T0 = (case T of None \<Rightarrow> map int [0..<length columns]
                | Some ts \<Rightarrow> map (\<lambda>t. t - 1) ts)"
  have pc: "process_columns minimize polyfit xdata T0 min_energy max_energy auto_range self
        (zip [1..<length columns + 1] columns) [] = (self', out)"
    using assms by (simp add: process_file_def T0_def)
  have "if results = [] then start_point self' = start_point self
        else start_point self' = fitresult (snd (last results)) \<and>
             (\<forall>Eg. dynamic_start_point self' Eg =
                   Inr ((fitresult (snd (last results)))[0 := Eg, 1 := 0.050, 5 := 0]))"
    if "out = Inr results" for results
    using process_columns_start_point[OF pc[unfolded that]]
    by (auto simp: dynamic_start_point_def split: if_splits)
  then show ?thesis using process_columns_frame[OF pc] by blast
qed

text \<open>
  Two points and one column, the optimizer replaced by the function that returns the upper
  bounds: after the call the start point is the upper-bound vector, and the next start
  carries its linewidth, amplitude and mass entries instead of the defaults 0.043, 37, 0.060.
\<close>

theorem process_file_mutates_start_point_only_witness:
  "deltaE (fst (process_file (\<lambda>obj x0 lo hi. Inr hi) (\<lambda>x y. Inr (0, 0))
       (init_fitter 0.2 20 0) [1, 2] [[0, 1]] None None None None)) = 0.2 \<and>
   NS (fst (process_file (\<lambda>obj x0 lo hi. Inr hi) (\<lambda>x y. Inr (0, 0))
       (init_fitter 0.2 20 0) [1, 2] [[0, 1]] None None None None)) = 20 \<and>
   fitmode (fst (process_file (\<lambda>obj x0 lo hi. Inr hi) (\<lambda>x y. Inr (0, 0))
       (init_fitter 0.2 20 0) [1, 2] [[0, 1]] None None None None)) = 0 \<and>
   lb (fst (process_file (\<lambda>obj x0 lo hi. Inr hi) (\<lambda>x y. Inr (0, 0))
       (init_fitter 0.2 20 0) [1, 2] [[0, 1]] None None None None)) =
     [2.54, 0.01, 0.00, 0.010, 0.000, 0.0] \<and>
   rb (fst (process_file (\<lambda>obj x0 lo hi. Inr hi) (\<lambda>x y. Inr (0, 0))
       (init_fitter 0.2 20 0) [1, 2] [[0, 1]] None None None None)) =
     [2.68, 0.2, 0.20, 1000.0, 0.999, 1.5] \<and>
   start_point (fst (process_file (\<lambda>obj x0 lo hi. Inr hi) (\<lambda>x y. Inr (0, 0))
       (init_fitter 0.2 20 0) [1, 2] [[0, 1]] None None None None)) =
     [2.2, 0.2, 0.20, 1000.0, 0.999, 1.5] \<and>
   dynamic_start_point (fst (process_file (\<lambda>obj x0 lo hi. Inr hi) (\<lambda>x y. Inr (0, 0))
       (init_fitter 0.2 20 0) [1, 2] [[0, 1]] None None None None)) 3 =
     Inr [3, 0.050, 0.20, 1000.0, 0.999, 0]"
proof -
  let ?M = "\<lambda>obj x0 lo hi. Inr hi :: error + real list"
  let ?P = "\<lambda>x y. Inr (0, 0) :: error + real \<times> real"
  let ?p = "[2.2, 0.2, 0.20, 1000.0, 0.999, 1.5] :: real list"
  let ?st = "(?p, sum_list (map2 (\<lambda>f y. (f - y) ^ 2) (fitted_curve ?p [1, 2]) [0, 1]),
     [True, True], [0, 0], [False, False], [0, 1 :: real])"
  have st: "fit_stages ?M ?P (init_fitter 0.2 20 0) [1, 2] [0, 1] None None None = Inr ?st"
    by (simp add: stage_defs fsum2d_equal_lengths)
  have "\<exists>r. report ?P [1, 2] ?st = Inr r"
    by (simp add: report_defs fsum2d_equal_lengths)
  then obtain r where r: "report ?P [1, 2] ?st = Inr r" by blast
  have pd: "process_dataset ?M ?P (init_fitter 0.2 20 0) [1, 2] [0, 1] None None None =
            ((init_fitter 0.2 20 0)\<lparr>start_point := ?p\<rparr>, Inr r)"
    unfolding process_dataset_def st sum.case fst_conv r by (rule refl)
  have pf: "process_file ?M ?P (init_fitter 0.2 20 0) [1, 2] [[0, 1]] None None None None =
            ((init_fitter 0.2 20 0)\<lparr>start_point := ?p\<rparr>, Inr [(1, r)])"
    unfolding process_file_def by (simp add: upt_conv_Cons pd[simplified])
  from report_Inr[OF r] have f: "fitresult r = ?p" by simp
  from process_file_mutates_start_point_only[OF pf] show ?thesis
    unfolding pf by (simp add: f init_fitter_def)
qed

end
